theory Spec2Isabelle
  imports Complex_Main "HOL-Library.Char_ord" "HOL-Library.List_Lexorder"
begin

section \<open>Python values\<close>

text \<open>
  The program is \<^verbatim>\<open>src/fetch_data.py\<close>. Its values are modelled as follows.
  \<^item> A timezone-aware \<^verbatim>\<open>datetime\<close> is an \<open>instant\<close>: the number of microseconds
    since the epoch (the resolution of \<^verbatim>\<open>datetime\<close>). A \<^verbatim>\<open>timedelta\<close> is a
    number of microseconds as well, so subtraction and comparison are the integer ones.
  \<^item> A Python \<^verbatim>\<open>float\<close> is a rational number and float arithmetic is exact
    arithmetic: rounding to the nearest double is not modelled.
  \<^item> A \<^verbatim>\<open>str\<close> is a \<open>string\<close> of ASCII characters.
  \<^item> \<^verbatim>\<open>None\<close> is \<open>None\<close> of an option type.
  \<^item> An exception is a value \<open>Inl e\<close> of the result type \<open>error + 'a\<close>.
\<close>

datatype error = ValueError | ZeroDivisionError | IndexError | AttributeError

type_synonym instant = int
type_synonym timedelta = int

definition total_seconds :: "timedelta \<Rightarrow> rat" where
  "total_seconds td = of_int td / 1000000"

subsection \<open>Strings\<close>

fun startswith :: "string \<Rightarrow> string \<Rightarrow> bool" where
  "startswith s [] = True"
| "startswith [] (p # ps) = False"
| "startswith (c # s) (p # ps) = (c = p \<and> startswith s ps)"

text \<open>\<open>str_in p s\<close> is Python's \<^verbatim>\<open>p in s\<close> on strings.\<close>

fun str_in :: "string \<Rightarrow> string \<Rightarrow> bool" where
  "str_in p [] = (p = [])"
| "str_in p (c # s) = (startswith (c # s) p \<or> str_in p s)"

definition is_digit :: "char \<Rightarrow> bool" where
  "is_digit c = (c \<in> set ''0123456789'')"

text \<open>The character class \<^verbatim>\<open>[\d.]\<close> and the class \<^verbatim>\<open>\s\<close>, on ASCII.\<close>

definition is_digit_or_dot :: "char \<Rightarrow> bool" where
  "is_digit_or_dot c = (is_digit c \<or> c = CHR ''.'')"

definition is_space :: "char \<Rightarrow> bool" where
  "is_space c = (c \<in> {CHR '' '', CHR 0x09, CHR 0x0A, CHR 0x0B, CHR 0x0C, CHR 0x0D,
                        CHR 0x1C, CHR 0x1D, CHR 0x1E, CHR 0x1F})"

text \<open>
  \<^verbatim>\<open>re.search(r"([\d.]+)\s*lbs", action_str)\<close>, returning group 1 of the leftmost
  match. At a start position the greedy run of digits and dots is the only candidate for
  the group: a shorter run is followed by a digit or a dot, which neither \<^verbatim>\<open>\s*\<close> nor
  \<^verbatim>\<open>lbs\<close> matches.
\<close>

fun re_search_lbs :: "string \<Rightarrow> string option" where
  "re_search_lbs [] = None"
| "re_search_lbs (c # s) =
     (let run = takeWhile is_digit_or_dot (c # s);
          rest = dropWhile is_space (dropWhile is_digit_or_dot (c # s))
      in if run \<noteq> [] \<and> startswith rest ''lbs'' then Some run else re_search_lbs s)"

definition digit_val :: "char \<Rightarrow> nat" where
  "digit_val c = of_char c - 48"

definition digits_val :: "string \<Rightarrow> nat" where
  "digits_val ds = foldl (\<lambda>n c. 10 * n + digit_val c) 0 ds"

text \<open>
  \<^verbatim>\<open>float(match.group(1))\<close>. The group is a string of digits and dots; \<^verbatim>\<open>float\<close>
  accepts it when it has at least one digit and at most one dot, and raises
  \<^verbatim>\<open>ValueError\<close> otherwise (\<^verbatim>\<open>"1.2.3"\<close>, \<^verbatim>\<open>"."\<close>).
\<close>

definition float_of_group :: "string \<Rightarrow> error + rat" where
  "float_of_group g =
     (let ip = takeWhile is_digit g; rest = dropWhile is_digit g
      in case rest of
           [] \<Rightarrow> if ip = [] then Inl ValueError else Inr (of_nat (digits_val ip))
         | d # fp \<Rightarrow>
             if d = CHR ''.'' \<and> list_all is_digit fp \<and> (ip \<noteq> [] \<or> fp \<noteq> [])
             then Inr (of_nat (digits_val ip) + of_nat (digits_val fp) / 10 ^ length fp)
             else Inl ValueError)"

section \<open>The event loop of \<^verbatim>\<open>parse_activity_history\<close>\<close>

text \<open>
  An activity of the device's history: \<open>a_action\<close> is \<^verbatim>\<open>str(activity.action)\<close>,
  \<open>a_timestamp\<close> is \<^verbatim>\<open>activity.timestamp\<close>.
\<close>

record activity =
  a_timestamp :: instant
  a_action :: string

text \<open>The dataclass \<^verbatim>\<open>CatVisit\<close>.\<close>

record cat_visit =
  timestamp :: instant
  weight_lbs :: "rat option"
  clean_cycle_duration_seconds :: "rat option"

text \<open>
  The branch of the \<^verbatim>\<open>if\<close>/\<^verbatim>\<open>elif\<close> chain (lines 51 to 76) that an action string
  takes: the first condition that holds, in the order of the source.
\<close>

datatype branch =
  CatDetected | WeightRecorded | CycleStarted | CycleCompleted | SensorInterrupted
  | Unrecognized

definition branch_of :: "string \<Rightarrow> branch" where
  "branch_of action_str =
     (if str_in ''CAT_DETECTED'' action_str \<or> action_str = ''CD'' then CatDetected
      else if str_in ''Pet Weight Recorded'' action_str then WeightRecorded
      else if str_in ''CLEAN_CYCLE:'' action_str \<or> action_str = ''CCP'' then CycleStarted
      else if str_in ''CLEAN_CYCLE_COMPLETE'' action_str \<or> action_str = ''CCC''
        then CycleCompleted
      else if str_in ''CAT_SENSOR_INTERRUPTED'' action_str \<or> action_str = ''CSI''
        then SensorInterrupted
      else Unrecognized)"

text \<open>The local variables that the loop updates.\<close>

record loop_state =
  visits :: "cat_visit list"
  weights :: "rat list"
  clean_cycles_completed :: nat
  sensor_interruptions :: nat
  current_visit :: "cat_visit option"
  cycle_start_time :: "instant option"

definition initial_state :: loop_state where
  "initial_state =
     \<lparr>visits = [], weights = [], clean_cycles_completed = 0, sensor_interruptions = 0,
      current_visit = None, cycle_start_time = None\<rparr>"

text \<open>
  The branch of lines 65 to 73, statement by statement. A \<^verbatim>\<open>datetime\<close> and a
  \<^verbatim>\<open>CatVisit\<close> are always true, so \<^verbatim>\<open>if current_visit\<close> tests for \<^verbatim>\<open>None\<close>.
\<close>

definition cycle_completed :: "loop_state \<Rightarrow> instant \<Rightarrow> loop_state" where
  "cycle_completed s ts =
     (let s1 = s\<lparr>clean_cycles_completed := clean_cycles_completed s + 1\<rparr>;
          s2 = (case (cycle_start_time s1, current_visit s1) of
                  (Some c, Some v) \<Rightarrow>
                    s1\<lparr>current_visit :=
                         Some (v\<lparr>clean_cycle_duration_seconds :=
                                    Some (total_seconds (ts - c))\<rparr>)\<rparr>
                | _ \<Rightarrow> s1);
          s3 = (case current_visit s2 of
                  Some v \<Rightarrow> s2\<lparr>visits := visits s2 @ [v], current_visit := None\<rparr>
                | None \<Rightarrow> s2)
      in s3\<lparr>cycle_start_time := None\<rparr>)"

text \<open>The branch of lines 54 to 60.\<close>

definition weight_recorded :: "loop_state \<Rightarrow> string \<Rightarrow> error + loop_state" where
  "weight_recorded s action_str =
     (case re_search_lbs action_str of
        None \<Rightarrow> Inr s
      | Some g \<Rightarrow>
          (case float_of_group g of
             Inl e \<Rightarrow> Inl e
           | Inr weight \<Rightarrow>
               Inr (s\<lparr>weights := weights s @ [weight],
                       current_visit :=
                         map_option (\<lambda>v. v\<lparr>weight_lbs := Some weight\<rparr>) (current_visit s)\<rparr>)))"

text \<open>One iteration of the loop of line 46.\<close>

definition process_activity :: "loop_state \<Rightarrow> activity \<Rightarrow> error + loop_state" where
  "process_activity s a =
     (case branch_of (a_action a) of
        CatDetected \<Rightarrow>
          Inr (s\<lparr>current_visit :=
                   Some \<lparr>timestamp = a_timestamp a, weight_lbs = None,
                         clean_cycle_duration_seconds = None\<rparr>\<rparr>)
      | WeightRecorded \<Rightarrow> weight_recorded s (a_action a)
      | CycleStarted \<Rightarrow> Inr (s\<lparr>cycle_start_time := Some (a_timestamp a)\<rparr>)
      | CycleCompleted \<Rightarrow> Inr (cycle_completed s (a_timestamp a))
      | SensorInterrupted \<Rightarrow> Inr (s\<lparr>sensor_interruptions := sensor_interruptions s + 1\<rparr>)
      | Unrecognized \<Rightarrow> Inr s)"

text \<open>The loop over a list of activities, stopping at the first exception.\<close>

fun run_loop :: "loop_state \<Rightarrow> activity list \<Rightarrow> error + loop_state" where
  "run_loop s [] = Inr s"
| "run_loop s (a # as) =
     (case process_activity s a of Inl e \<Rightarrow> Inl e | Inr s' \<Rightarrow> run_loop s' as)"

section \<open>The statistics of \<^verbatim>\<open>parse_activity_history\<close>\<close>

text \<open>
  Division by a divisor that is not a constant raises \<^verbatim>\<open>ZeroDivisionError\<close> at zero.
\<close>

definition truediv :: "rat \<Rightarrow> rat \<Rightarrow> error + rat" where
  "truediv a b = (if b = 0 then Inl ZeroDivisionError else Inr (a / b))"

text \<open>
  \<^verbatim>\<open>max(xs, key=key)\<close> on a non-empty iterable with first element \<open>x\<close>: the
  candidate is replaced only by an element whose key is strictly greater, so the first
  of the greatest elements is returned.
\<close>

definition max_by_key :: "('a \<Rightarrow> 'k::linorder) \<Rightarrow> 'a \<Rightarrow> 'a list \<Rightarrow> 'a" where
  "max_by_key key x xs = foldl (\<lambda>best y. if key best < key y then y else best) x xs"

text \<open>
  What the program reads from \<^verbatim>\<open>visit.timestamp.astimezone(LOCAL_TZ)\<close>: the hour, the
  weekday (0 is Monday) and the results of \<^verbatim>\<open>strftime\<close> for the five formats it
  uses. The conversion belongs to the libraries \<^verbatim>\<open>zoneinfo\<close> and \<^verbatim>\<open>datetime\<close>
  (\<^verbatim>\<open>LOCAL_TZ\<close> is \<^verbatim>\<open>America/Los_Angeles\<close> in the source); the model takes it as a
  parameter \<open>tz\<close>, and everything proved holds for every zone.
\<close>

record local_time =
  lt_hour :: nat
  lt_weekday :: nat
  lt_Y_m_d :: string
  lt_a :: string
  lt_m_d :: string
  lt_b_d :: string
  lt_b_d_Y :: string

type_synonym zone = "instant \<Rightarrow> local_time"

text \<open>
  \<^verbatim>\<open>visits_by_hour[local_time.hour] += 1\<close> on a \<^verbatim>\<open>defaultdict(int)\<close>. A dictionary is
  an association list in insertion order, which is the order Python iterates it in.
\<close>

fun incr_hour :: "(nat \<times> nat) list \<Rightarrow> nat \<Rightarrow> (nat \<times> nat) list" where
  "incr_hour [] h = [(h, 1)]"
| "incr_hour ((k, c) # m) h = (if k = h then (k, c + 1) # m else (k, c) # incr_hour m h)"

definition visits_by_hour_of :: "zone \<Rightarrow> cat_visit list \<Rightarrow> (nat \<times> nat) list" where
  "visits_by_hour_of tz vs = foldl (\<lambda>m v. incr_hour m (lt_hour (tz (timestamp v)))) [] vs"

record date_entry =
  d_count :: nat
  d_weekday :: nat
  d_weekday_name :: string
  d_display :: string

text \<open>
  Lines 98 to 105: a date that is not yet a key gets the entry \<open>fresh\<close> (whose count is
  0), and then the count of the date's entry is incremented.
\<close>

fun incr_date ::
  "(string \<times> date_entry) list \<Rightarrow> string \<Rightarrow> date_entry \<Rightarrow> (string \<times> date_entry) list" where
  "incr_date [] date_key fresh = [(date_key, fresh\<lparr>d_count := d_count fresh + 1\<rparr>)]"
| "incr_date ((k, e) # m) date_key fresh =
     (if k = date_key then (k, e\<lparr>d_count := d_count e + 1\<rparr>) # m
      else (k, e) # incr_date m date_key fresh)"

definition visits_by_date_of :: "zone \<Rightarrow> cat_visit list \<Rightarrow> (string \<times> date_entry) list" where
  "visits_by_date_of tz vs =
     foldl (\<lambda>m v. let local_time = tz (timestamp v)
                   in incr_date m (lt_Y_m_d local_time)
                        \<lparr>d_count = 0, d_weekday = lt_weekday local_time,
                         d_weekday_name = lt_a local_time, d_display = lt_m_d local_time\<rparr>)
       [] vs"

definition visit_gaps_of :: "cat_visit list \<Rightarrow> timedelta list" where
  "visit_gaps_of vs =
     map (\<lambda>i. timestamp (vs ! i) - timestamp (vs ! (i - 1))) [1..<length vs]"

text \<open>\<^verbatim>\<open>max(visit_gaps) if visit_gaps else None\<close>, and the same with \<^verbatim>\<open>min\<close>.\<close>

definition longest_gap_of :: "timedelta list \<Rightarrow> timedelta option" where
  "longest_gap_of gaps = (case gaps of [] \<Rightarrow> None | g # gs \<Rightarrow> Some (foldl max g gs))"

definition shortest_gap_of :: "timedelta list \<Rightarrow> timedelta option" where
  "shortest_gap_of gaps = (case gaps of [] \<Rightarrow> None | g # gs \<Rightarrow> Some (foldl min g gs))"

text \<open>Lines 117 to 129: the pair \<^verbatim>\<open>(weight_trend, weight_change)\<close>.\<close>

definition weight_trend_of :: "rat list \<Rightarrow> error + (string option \<times> rat option)" where
  "weight_trend_of ws =
     (if 4 \<le> length ws then
        (let mid = length ws div 2 in
         case truediv (sum_list (take mid ws)) (of_nat mid) of
           Inl e \<Rightarrow> Inl e
         | Inr first_half_avg \<Rightarrow>
             (case truediv (sum_list (drop mid ws)) (of_nat (length ws - mid)) of
                Inl e \<Rightarrow> Inl e
              | Inr second_half_avg \<Rightarrow>
                  (let weight_change = second_half_avg - first_half_avg
                   in Inr (Some (if weight_change > 1 / 10 then ''gaining''
                                 else if weight_change < - (1 / 10) then ''losing''
                                 else ''stable''),
                           Some weight_change))))
      else Inr (None, None))"

subsection \<open>Personality traits\<close>

definition get_count :: "(nat \<times> nat) list \<Rightarrow> nat \<Rightarrow> nat" where
  "get_count m h = (case map_of m h of None \<Rightarrow> 0 | Some c \<Rightarrow> c)"

text \<open>Lines 134 to 148.\<close>

definition time_of_day_trait :: "(nat \<times> nat) list \<Rightarrow> string list" where
  "time_of_day_trait visits_by_hour =
     (if visits_by_hour \<noteq> [] then
        (let night_visits = sum_list (map (get_count visits_by_hour) [0..<6]);
             morning_visits = sum_list (map (get_count visits_by_hour) [6..<12]);
             afternoon_visits = sum_list (map (get_count visits_by_hour) [12..<18]);
             evening_visits = sum_list (map (get_count visits_by_hour) [18..<24]);
             dominant_period =
               max_by_key fst (night_visits, ''Night Owl'')
                 [(morning_visits, ''Early Bird''),
                  (afternoon_visits, ''Afternoon Aristocat''),
                  (evening_visits, ''Evening Eliminator'')]
         in if fst dominant_period > 0 then [snd dominant_period] else [])
      else [])"

text \<open>
  Lines 150 to 157. The source compares \<^verbatim>\<open>(gap_variance ** 0.5) / 3600\<close> with 2 and
  with 6; the variance is not negative and the square root is monotone, so the model
  compares the variance with the squares of \<open>2 * 3600\<close> and \<open>6 * 3600\<close>.
\<close>

definition regularity_trait :: "timedelta list \<Rightarrow> error + string list" where
  "regularity_trait visit_gaps =
     (if visit_gaps \<noteq> [] then
        (case truediv (sum_list (map total_seconds visit_gaps)) (of_nat (length visit_gaps)) of
           Inl e \<Rightarrow> Inl e
         | Inr avg_gap \<Rightarrow>
             (case truediv (sum_list (map (\<lambda>g. (total_seconds g - avg_gap) ^ 2) visit_gaps))
                     (of_nat (length visit_gaps)) of
                Inl e \<Rightarrow> Inl e
              | Inr gap_variance \<Rightarrow>
                  Inr (if gap_variance < (2 * 3600) ^ 2 then [''Creature of Habit'']
                       else if gap_variance > (6 * 3600) ^ 2 then [''Chaotic Pooper'']
                       else [])))
      else Inr [])"

text \<open>Lines 159 to 169. \<^verbatim>\<open>n or 1\<close> is 1 when \<open>n\<close> is 0.\<close>

definition weekly_trait :: "(string \<times> date_entry) list \<Rightarrow> error + string list" where
  "weekly_trait visits_by_date =
     (if visits_by_date \<noteq> [] then
        (let ds = map snd visits_by_date;
             weekend_visits = sum_list (map d_count (filter (\<lambda>d. 5 \<le> d_weekday d) ds));
             weekday_visits = sum_list (map d_count (filter (\<lambda>d. d_weekday d < 5) ds));
             weekend_n = length (filter (\<lambda>d. 5 \<le> d_weekday d) ds);
             weekday_n = length (filter (\<lambda>d. d_weekday d < 5) ds);
             weekend_days = (if weekend_n = 0 then 1 else weekend_n);
             weekday_days = (if weekday_n = 0 then 1 else weekday_n)
         in case truediv (of_nat weekend_visits) (of_nat weekend_days) of
              Inl e \<Rightarrow> Inl e
            | Inr weekend_rate \<Rightarrow>
                (case truediv (of_nat weekday_visits) (of_nat weekday_days) of
                   Inl e \<Rightarrow> Inl e
                 | Inr weekday_rate \<Rightarrow>
                     Inr (if weekend_rate > weekday_rate * (13 / 10) then [''Weekend Warrior'']
                          else if weekday_rate > weekend_rate * (13 / 10)
                            then [''Weekday Regular'']
                          else [])))
      else Inr [])"

subsection \<open>The returned dictionary\<close>

record stats =
  stats_visits :: "cat_visit list"
  stats_weights :: "rat list"
  stats_clean_cycles_completed :: nat
  stats_sensor_interruptions :: nat
  stats_date_range :: "instant option \<times> instant option"
  stats_days_covered :: rat
  stats_visits_by_hour :: "(nat \<times> nat) list"
  stats_visits_by_date :: "(string \<times> date_entry) list"
  stats_longest_gap :: "timedelta option"
  stats_shortest_gap :: "timedelta option"
  stats_weight_trend :: "string option"
  stats_weight_change :: "rat option"
  stats_personality_traits :: "string list"

text \<open>Lines 79 to 85: \<^verbatim>\<open>(date_range_start, date_range_end, days_covered)\<close>.\<close>

definition date_range_of :: "activity list \<Rightarrow> instant option \<times> instant option \<times> rat" where
  "date_range_of activities =
     (case map a_timestamp activities of
        [] \<Rightarrow> (None, None, 0)
      | t # ts \<Rightarrow>
          (let date_range_start = foldl min t ts; date_range_end = foldl max t ts
           in (Some date_range_start, Some date_range_end,
               total_seconds (date_range_end - date_range_start) / 86400)))"

definition parse_activity_history :: "zone \<Rightarrow> activity list \<Rightarrow> error + stats" where
  "parse_activity_history tz activities =
     (case run_loop initial_state (rev activities) of
        Inl e \<Rightarrow> Inl e
      | Inr s \<Rightarrow>
          (let (date_range_start, date_range_end, days_covered) = date_range_of activities;
               visits_by_hour = visits_by_hour_of tz (visits s);
               visits_by_date = visits_by_date_of tz (visits s);
               visit_gaps = visit_gaps_of (visits s)
           in case weight_trend_of (weights s) of
                Inl e \<Rightarrow> Inl e
              | Inr (weight_trend, weight_change) \<Rightarrow>
                  (case regularity_trait visit_gaps of
                     Inl e \<Rightarrow> Inl e
                   | Inr regularity \<Rightarrow>
                       (case weekly_trait visits_by_date of
                          Inl e \<Rightarrow> Inl e
                        | Inr weekly \<Rightarrow>
                            Inr \<lparr>stats_visits = visits s,
                                 stats_weights = weights s,
                                 stats_clean_cycles_completed = clean_cycles_completed s,
                                 stats_sensor_interruptions = sensor_interruptions s,
                                 stats_date_range = (date_range_start, date_range_end),
                                 stats_days_covered = days_covered,
                                 stats_visits_by_hour = visits_by_hour,
                                 stats_visits_by_date = visits_by_date,
                                 stats_longest_gap = longest_gap_of visit_gaps,
                                 stats_shortest_gap = shortest_gap_of visit_gaps,
                                 stats_weight_trend = weight_trend,
                                 stats_weight_change = weight_change,
                                 stats_personality_traits =
                                   time_of_day_trait visits_by_hour @ regularity @ weekly\<rparr>))))"

section \<open>\<^verbatim>\<open>format_duration\<close> and \<^verbatim>\<open>build_data_json\<close>\<close>

definition digit_char :: "nat \<Rightarrow> char" where
  "digit_char n = char_of (48 + n)"

text \<open>\<^verbatim>\<open>str(n)\<close>, and an integer in an f-string, for an integer that is not negative.\<close>

fun str_nat :: "nat \<Rightarrow> string" where
  "str_nat n = (if n < 10 then [digit_char n] else str_nat (n div 10) @ [digit_char (n mod 10)])"

declare str_nat.simps [simp del]

text \<open>
  \<^verbatim>\<open>int(td.total_seconds())\<close> truncates towards zero; \<^verbatim>\<open>divmod\<close> rounds down. The
  hours are printed only when they are positive, and the minutes are at least 0.
\<close>

definition format_duration :: "timedelta \<Rightarrow> string" where
  "format_duration td =
     (let secs = (if 0 \<le> td then td div 1000000 else - ((- td) div 1000000));
          hours = secs div 3600;
          remainder = secs mod 3600;
          minutes = remainder div 60
      in if hours > 0 then str_nat (nat hours) @ ''h '' @ str_nat (nat minutes) @ ''m''
         else str_nat (nat minutes) @ ''m'')"

text \<open>
  \<^verbatim>\<open>round(x, ndigits)\<close>: to the nearest multiple of \<open>10 ^ - ndigits\<close>, a tie going to
  the even multiple.
\<close>

definition round_half_even :: "rat \<Rightarrow> int" where
  "round_half_even x =
     (let f = \<lfloor>x\<rfloor>; d = x - of_int f
      in if d < 1 / 2 then f else if d > 1 / 2 then f + 1 else if even f then f else f + 1)"

definition py_round :: "rat \<Rightarrow> nat \<Rightarrow> rat" where
  "py_round x ndigits = of_int (round_half_even (x * 10 ^ ndigits)) / 10 ^ ndigits"

text \<open>
  The nested dictionaries of the document. A value that is a string or \<^verbatim>\<open>None\<close> (in
  JSON: \<^verbatim>\<open>null\<close>) is a \<open>string option\<close>.
\<close>

record date_range_doc =
  dr_start :: "string option"
  dr_end :: "string option"
  dr_display :: "string option"

record chart_entry =
  cd_weekday :: string
  cd_display :: string
  cd_count :: nat

record timing_doc =
  t_longest_gap :: string
  t_shortest_gap :: string

record weight_doc =
  w_average :: rat
  w_min :: rat
  w_max :: rat
  w_trend :: "string option"
  w_change :: rat

record peak_hour_doc =
  ph_hour :: nat
  ph_count :: nat
  ph_display :: string

record busiest_date_doc =
  bd_day_name :: string
  bd_display :: string
  bd_count :: nat
  bd_is_weekend :: bool

record robot_stats_doc =
  rs_clean_cycles :: nat
  rs_interruptions :: nat

record output_doc =
  out_oz :: rat
  out_lbs :: rat

record document =
  cat_name :: string
  robot_name :: string
  generated_at :: string
  date_range :: date_range_doc
  personality_traits :: "string list"
  total_visits :: nat
  visits_per_day :: rat
  chart_data :: "chart_entry list"
  timing :: timing_doc
  weight :: weight_doc
  peak_hour :: peak_hour_doc
  busiest_date :: "busiest_date_doc option"
  robot_stats :: robot_stats_doc
  output_block :: output_doc

definition day_names :: "string list" where
  "day_names =
     [''Monday'', ''Tuesday'', ''Wednesday'', ''Thursday'', ''Friday'', ''Saturday'', ''Sunday'']"

text \<open>
  Lines 228 to 238. \<^verbatim>\<open>day_names[busiest_info["weekday"]]\<close> raises \<^verbatim>\<open>IndexError\<close>
  for a weekday beyond 6.
\<close>

definition busiest_date_of ::
  "(string \<times> date_entry) list \<Rightarrow> error + busiest_date_doc option" where
  "busiest_date_of visits_by_date =
     (case visits_by_date of
        [] \<Rightarrow> Inr None
      | kv # kvs \<Rightarrow>
          (let busiest_info = snd (max_by_key (\<lambda>k. d_count (snd k)) kv kvs)
           in if d_weekday busiest_info < length day_names
              then Inr (Some \<lparr>bd_day_name = day_names ! d_weekday busiest_info,
                               bd_display = d_display busiest_info,
                               bd_count = d_count busiest_info,
                               bd_is_weekend = (5 \<le> d_weekday busiest_info)\<rparr>)
              else Inl IndexError))"

text \<open>
  \<^verbatim>\<open>format_duration(gap) if gap else "N/A"\<close>: \<^verbatim>\<open>None\<close> and the zero
  \<^verbatim>\<open>timedelta\<close> are false.
\<close>

definition gap_text :: "timedelta option \<Rightarrow> string" where
  "gap_text gap =
     (case gap of None \<Rightarrow> ''N/A'' | Some g \<Rightarrow> if g = 0 then ''N/A'' else format_duration g)"

text \<open>
  The dictionary under \<^verbatim>\<open>"date_range"\<close> (lines 244 to 248). With a start and no end,
  the f-string of the display calls \<^verbatim>\<open>strftime\<close> on \<^verbatim>\<open>None\<close>.
\<close>

definition date_range_doc_of ::
  "local_time option \<Rightarrow> local_time option \<Rightarrow> error + date_range_doc" where
  "date_range_doc_of local_start local_end =
     (case local_start of
        None \<Rightarrow>
          Inr \<lparr>dr_start = None, dr_end = map_option lt_b_d_Y local_end,
               dr_display = Some ''''\<rparr>
      | Some ls \<Rightarrow>
          (case local_end of
             None \<Rightarrow> Inl AttributeError
           | Some le \<Rightarrow>
               Inr \<lparr>dr_start = Some (lt_b_d ls), dr_end = Some (lt_b_d_Y le),
                    dr_display = Some (lt_b_d ls @ '' - '' @ lt_b_d_Y le)\<rparr>))"

text \<open>
  \<open>now\<close> is \<^verbatim>\<open>datetime.now(LOCAL_TZ).isoformat()\<close>, read from the clock.

  Every key of the dictionary \<open>stats\<close> is present, since \<^verbatim>\<open>parse_activity_history\<close>
  returns a literal with all of them. So \<^verbatim>\<open>stats.get("weight_trend", "stable")\<close> is
  the value stored under the key, \<^verbatim>\<open>None\<close> included, and never the default; and
  \<^verbatim>\<open>stats.get("weight_change", 0) or 0\<close> is 0 for \<^verbatim>\<open>None\<close> and for zero.

  \<^verbatim>\<open>sorted(visits_by_date.keys())\<close> followed by a lookup of each key is the list of
  entries sorted by key; the keys of a dictionary are distinct.
\<close>

definition build_data_json ::
  "zone \<Rightarrow> string \<Rightarrow> stats \<Rightarrow> string \<Rightarrow> string \<Rightarrow> error + document" where
  "build_data_json tz now stats robot cat =
     (let (range_start, range_end) = stats_date_range stats;
          local_start = map_option tz range_start;
          local_end = map_option tz range_end;
          n_visits = length (stats_visits stats);
          days = (if stats_days_covered stats = 0 then 1 else stats_days_covered stats)
      in case truediv (of_nat n_visits) days of
           Inl e \<Rightarrow> Inl e
         | Inr per_day \<Rightarrow>
             (let ws = stats_weights stats
              in case (if ws \<noteq> [] then truediv (sum_list ws) (of_nat (length ws)) else Inr 0) of
                   Inl e \<Rightarrow> Inl e
                 | Inr avg_weight \<Rightarrow>
                     (let min_weight = (case ws of [] \<Rightarrow> 0 | w # r \<Rightarrow> foldl min w r);
                          max_weight = (case ws of [] \<Rightarrow> 0 | w # r \<Rightarrow> foldl max w r);
                          by_hour = stats_visits_by_hour stats;
                          peak = (case map fst by_hour of
                                    [] \<Rightarrow> 0
                                  | h # hs \<Rightarrow> max_by_key (get_count by_hour) h hs);
                          peak_count = get_count by_hour peak;
                          visits_by_date = stats_visits_by_date stats;
                          chart =
                            map (\<lambda>(d, e). \<lparr>cd_weekday = d_weekday_name e,
                                           cd_display = d_display e, cd_count = d_count e\<rparr>)
                              (sort_key fst visits_by_date)
                      in case busiest_date_of visits_by_date of
                           Inl e \<Rightarrow> Inl e
                         | Inr busiest \<Rightarrow>
                             (case date_range_doc_of local_start local_end of
                                Inl e \<Rightarrow> Inl e
                              | Inr range_doc \<Rightarrow>
                                  Inr \<lparr>cat_name = cat,
                                       robot_name = robot,
                                       generated_at = now,
                                       date_range = range_doc,
                                       personality_traits = stats_personality_traits stats,
                                       total_visits = n_visits,
                                       visits_per_day = py_round per_day 1,
                                       chart_data = chart,
                                       timing =
                                         \<lparr>t_longest_gap = gap_text (stats_longest_gap stats),
                                          t_shortest_gap =
                                            gap_text (stats_shortest_gap stats)\<rparr>,
                                       weight =
                                         \<lparr>w_average = py_round avg_weight 1,
                                          w_min = py_round min_weight 1,
                                          w_max = py_round max_weight 1,
                                          w_trend = stats_weight_trend stats,
                                          w_change =
                                            py_round
                                              (case stats_weight_change stats of
                                                 None \<Rightarrow> 0
                                               | Some c \<Rightarrow> if c = 0 then 0 else c) 2\<rparr>,
                                       peak_hour =
                                         \<lparr>ph_hour = peak,
                                          ph_count = peak_count,
                                          ph_display =
                                            str_nat (if peak mod 12 = 0 then 12 else peak mod 12)
                                            @ '':00 ''
                                            @ (if peak < 12 then ''AM'' else ''PM'')\<rparr>,
                                       busiest_date = busiest,
                                       robot_stats =
                                         \<lparr>rs_clean_cycles = stats_clean_cycles_completed stats,
                                          rs_interruptions =
                                            stats_sensor_interruptions stats\<rparr>,
                                       output_block =
                                         \<lparr>out_oz = py_round (of_nat n_visits * (5 / 2)) 0,
                                          out_lbs =
                                            py_round (of_nat n_visits * (5 / 2) / 16) 1\<rparr>\<rparr>))))"

text \<open>The two functions in sequence, as \<^verbatim>\<open>main\<close> calls them (lines 310 and 313).\<close>

definition data_json ::
  "zone \<Rightarrow> string \<Rightarrow> activity list \<Rightarrow> string \<Rightarrow> string \<Rightarrow> error + document" where
  "data_json tz now activities robot cat =
     (case parse_activity_history tz activities of
        Inl e \<Rightarrow> Inl e
      | Inr stats \<Rightarrow> build_data_json tz now stats robot cat)"

section \<open>An example zone\<close>

text \<open>
  UTC, for running the model on concrete inputs: the proleptic Gregorian date of a day
  number (days since 1970-01-01, a Thursday) and the strings that \<^verbatim>\<open>strftime\<close> gives
  in the C locale for years of four digits.
\<close>

definition civil_from_days :: "int \<Rightarrow> int \<times> int \<times> int" where
  "civil_from_days day_number =
     (let z = day_number + 719468;
          era = z div 146097;
          doe = z mod 146097;
          yoe = (doe - doe div 1460 + doe div 36524 - doe div 146096) div 365;
          doy = doe - (365 * yoe + yoe div 4 - yoe div 100);
          mp = (5 * doy + 2) div 153;
          d = doy - (153 * mp + 2) div 5 + 1;
          m = (if mp < 10 then mp + 3 else mp - 9);
          y = yoe + era * 400 + (if m \<le> 2 then 1 else 0)
      in (y, m, d))"

definition pad2 :: "nat \<Rightarrow> string" where
  "pad2 n = (if n < 10 then CHR ''0'' # str_nat n else str_nat n)"

definition month_abbr :: "string list" where
  "month_abbr =
     [''Jan'', ''Feb'', ''Mar'', ''Apr'', ''May'', ''Jun'',
      ''Jul'', ''Aug'', ''Sep'', ''Oct'', ''Nov'', ''Dec'']"

definition day_abbr :: "string list" where
  "day_abbr = [''Mon'', ''Tue'', ''Wed'', ''Thu'', ''Fri'', ''Sat'', ''Sun'']"

definition utc :: zone where
  "utc t =
     (let secs = t div 1000000;
          day_number = secs div 86400;
          (y, m, d) = civil_from_days day_number;
          wd = nat ((day_number + 3) mod 7);
          year = str_nat (nat y);
          month = month_abbr ! (nat m - 1)
      in \<lparr>lt_hour = nat (secs mod 86400 div 3600),
          lt_weekday = wd,
          lt_Y_m_d = year @ ''-'' @ pad2 (nat m) @ ''-'' @ pad2 (nat d),
          lt_a = day_abbr ! wd,
          lt_m_d = pad2 (nat m) @ ''/'' @ pad2 (nat d),
          lt_b_d = month @ '' '' @ pad2 (nat d),
          lt_b_d_Y = month @ '' '' @ pad2 (nat d) @ '', '' @ year\<rparr>)"

section \<open>Example inputs\<close>

text \<open>
  Histories as the device gives them, newest first. The action strings are the short
  codes and the weight text that the conditions of the source name.
\<close>

definition scenario_a :: "activity list" where
  "scenario_a =
     [\<lparr>a_timestamp = 1700000010000000, a_action = ''CCC''\<rparr>,
      \<lparr>a_timestamp = 1700000002000000, a_action = ''CCP''\<rparr>,
      \<lparr>a_timestamp = 1700000001000000, a_action = ''Pet Weight Recorded: 8.5 lbs''\<rparr>,
      \<lparr>a_timestamp = 1700000000000000, a_action = ''CD''\<rparr>]"

definition two_visits :: "activity list" where
  "two_visits =
     [\<lparr>a_timestamp = 1700003700000000, a_action = ''CCC''\<rparr>,
      \<lparr>a_timestamp = 1700003600000000, a_action = ''CD''\<rparr>,
      \<lparr>a_timestamp = 1700000020000000, a_action = ''CCC''\<rparr>]
     @ scenario_a"


text \<open>
  Two visits, one in the evening and a later one in the night of the next day (UTC), so
  that Night and Evening tie.
\<close>

definition tie_visits :: "activity list" where
  "tie_visits =
     [\<lparr>a_timestamp = 1700014420000000, a_action = ''CCC''\<rparr>,
      \<lparr>a_timestamp = 1700014400000000, a_action = ''CD''\<rparr>,
      \<lparr>a_timestamp = 1700000020000000, a_action = ''CCC''\<rparr>,
      \<lparr>a_timestamp = 1700000000000000, a_action = ''CD''\<rparr>]"

text \<open>A detection and its completed cycle at one and the same instant.\<close>

definition same_instant :: "activity list" where
  "same_instant =
     [\<lparr>a_timestamp = 1700000000000000, a_action = ''CCC''\<rparr>,
      \<lparr>a_timestamp = 1700000000000000, a_action = ''CD''\<rparr>]"

text \<open>The document for a history, in the example zone and with fixed names.\<close>

definition example_doc :: "activity list \<Rightarrow> error + document" where
  "example_doc activities =
     data_json utc ''2023-11-15T09:00:00-08:00'' activities ''Litter-Robot'' ''Kitty''"

section \<open>Notions used in the statements\<close>

text \<open>The visits that the loop has completed followed by the open one, if there is one.\<close>

definition pending :: "loop_state \<Rightarrow> cat_visit list" where
  "pending s = visits s @ (case current_visit s of None \<Rightarrow> [] | Some v \<Rightarrow> [v])"


text \<open>
  The rule of time-of-day dominance as the specification words it, on the visit list:
  the number of visits in a local hour, its sum over a range of hours, and the label of
  the range with the greatest sum, the first of the order Night, Morning, Afternoon,
  Evening winning a tie, given only if that sum is positive.
\<close>

definition hour_count :: "zone \<Rightarrow> cat_visit list \<Rightarrow> nat \<Rightarrow> nat" where
  "hour_count tz vs h = length (filter (\<lambda>v. lt_hour (tz (timestamp v)) = h) vs)"

definition partition_sum :: "zone \<Rightarrow> cat_visit list \<Rightarrow> nat \<Rightarrow> nat \<Rightarrow> nat" where
  "partition_sum tz vs lo hi = (\<Sum>h = lo..<hi. hour_count tz vs h)"

definition dominance_rule :: "zone \<Rightarrow> cat_visit list \<Rightarrow> string list" where
  "dominance_rule tz vs =
     (let night = partition_sum tz vs 0 6;
          morning = partition_sum tz vs 6 12;
          afternoon = partition_sum tz vs 12 18;
          evening = partition_sum tz vs 18 24
      in if morning \<le> night \<and> afternoon \<le> night \<and> evening \<le> night
         then (if 0 < night then [''Night Owl''] else [])
         else if afternoon \<le> morning \<and> evening \<le> morning
         then (if 0 < morning then [''Early Bird''] else [])
         else if evening \<le> afternoon
         then (if 0 < afternoon then [''Afternoon Aristocat''] else [])
         else (if 0 < evening then [''Evening Eliminator''] else []))"

section \<open>Properties of the event loop\<close>

lemma process_activity_count:
  assumes "process_activity s a = Inr s'"
    and "length (visits s) \<le> clean_cycles_completed s"
  shows "length (visits s') \<le> clean_cycles_completed s'"
  using assms
  by (auto simp: process_activity_def weight_recorded_def cycle_completed_def Let_def
      split: branch.splits option.splits sum.splits)

lemma run_loop_count:
  assumes "run_loop s as = Inr s'"
    and "length (visits s) \<le> clean_cycles_completed s"
  shows "length (visits s') \<le> clean_cycles_completed s'"
  using assms
proof (induction as arbitrary: s)
  case Nil
  then show ?case by simp
next
  case (Cons a as)
  then show ?case
    by (auto split: sum.splits dest: process_activity_count)
qed

lemma run_loop_append:
  "run_loop s (xs @ ys) = (case run_loop s xs of Inl e \<Rightarrow> Inl e | Inr s' \<Rightarrow> run_loop s' ys)"
  by (induction xs arbitrary: s) (auto split: sum.splits)

lemma run_loop_snoc:
  "run_loop s xs = Inr s' \<Longrightarrow> run_loop s (xs @ [a]) = process_activity s' a"
  by (simp add: run_loop_append split: sum.splits)

lemma parse_activity_history_loop:
  assumes "parse_activity_history tz activities = Inr st"
  shows "\<exists>s. run_loop initial_state (rev activities) = Inr s
            \<and> stats_visits st = visits s \<and> stats_weights st = weights s
            \<and> stats_clean_cycles_completed st = clean_cycles_completed s
            \<and> stats_sensor_interruptions st = sensor_interruptions s"
  using assms
  by (auto simp: parse_activity_history_def Let_def split: sum.splits prod.splits)

subsection \<open>The examples, evaluated\<close>

lemma run_loop_scenario_a_prefix:
  "run_loop initial_state
     [\<lparr>a_timestamp = 1700000000000000, a_action = ''CD''\<rparr>,
      \<lparr>a_timestamp = 1700000001000000, a_action = ''Pet Weight Recorded: 8.5 lbs''\<rparr>,
      \<lparr>a_timestamp = 1700000002000000, a_action = ''CCP''\<rparr>]
   = Inr \<lparr>visits = [], weights = [17 / 2], clean_cycles_completed = 0,
          sensor_interruptions = 0,
          current_visit =
            Some \<lparr>timestamp = 1700000000000000, weight_lbs = Some (17 / 2),
                  clean_cycle_duration_seconds = None\<rparr>,
          cycle_start_time = Some 1700000002000000\<rparr>"
  by code_simp

lemma parse_scenario_a:
  "parse_activity_history utc scenario_a =
     Inr \<lparr>stats_visits =
            [\<lparr>timestamp = 1700000000000000, weight_lbs = Some (17 / 2),
              clean_cycle_duration_seconds = Some 8\<rparr>],
          stats_weights = [17 / 2],
          stats_clean_cycles_completed = 1,
          stats_sensor_interruptions = 0,
          stats_date_range = (Some 1700000000000000, Some 1700000010000000),
          stats_days_covered = 1 / 8640,
          stats_visits_by_hour = [(22, 1)],
          stats_visits_by_date =
            [(''2023-11-14'',
              \<lparr>d_count = 1, d_weekday = 1, d_weekday_name = ''Tue'', d_display = ''11/14''\<rparr>)],
          stats_longest_gap = None,
          stats_shortest_gap = None,
          stats_weight_trend = None,
          stats_weight_change = None,
          stats_personality_traits = [''Evening Eliminator'', ''Weekday Regular'']\<rparr>"
  by code_simp

lemma parse_two_visits:
  "parse_activity_history utc two_visits =
     Inr \<lparr>stats_visits =
            [\<lparr>timestamp = 1700000000000000, weight_lbs = Some (17 / 2),
              clean_cycle_duration_seconds = Some 8\<rparr>,
             \<lparr>timestamp = 1700003600000000, weight_lbs = None,
              clean_cycle_duration_seconds = None\<rparr>],
          stats_weights = [17 / 2],
          stats_clean_cycles_completed = 3,
          stats_sensor_interruptions = 0,
          stats_date_range = (Some 1700000000000000, Some 1700003700000000),
          stats_days_covered = 37 / 864,
          stats_visits_by_hour = [(22, 1), (23, 1)],
          stats_visits_by_date =
            [(''2023-11-14'',
              \<lparr>d_count = 2, d_weekday = 1, d_weekday_name = ''Tue'', d_display = ''11/14''\<rparr>)],
          stats_longest_gap = Some 3600000000,
          stats_shortest_gap = Some 3600000000,
          stats_weight_trend = None,
          stats_weight_change = None,
          stats_personality_traits =
            [''Evening Eliminator'', ''Creature of Habit'', ''Weekday Regular'']\<rparr>"
  by code_simp


subsection \<open>A completed clean cycle\<close>

lemma process_activity_fresh:
  assumes "process_activity s a = Inr s'"
    and "\<forall>v. current_visit s = Some v \<longrightarrow> clean_cycle_duration_seconds v = None"
  shows "\<forall>v. current_visit s' = Some v \<longrightarrow> clean_cycle_duration_seconds v = None"
  using assms
  by (auto simp: process_activity_def weight_recorded_def cycle_completed_def Let_def
      split: branch.splits option.splits sum.splits)

text \<open>An open visit has no duration yet: only the branch that closes it sets one.\<close>

lemma run_loop_fresh:
  assumes "run_loop s es = Inr s'"
    and "\<forall>v. current_visit s = Some v \<longrightarrow> clean_cycle_duration_seconds v = None"
  shows "\<forall>v. current_visit s' = Some v \<longrightarrow> clean_cycle_duration_seconds v = None"
  using assms
proof (induction es arbitrary: s)
  case Nil
  then show ?case by simp
next
  case (Cons a es)
  from Cons.prems(1) obtain s1 where
    step: "process_activity s a = Inr s1" and rest: "run_loop s1 es = Inr s'"
    by (auto split: sum.splits)
  from process_activity_fresh [OF step Cons.prems(2)] Cons.IH [OF rest]
  show ?case by blast
qed

lemma cycle_completed_fields:
  "clean_cycles_completed (cycle_completed s ts) = clean_cycles_completed s + 1"
  "cycle_start_time (cycle_completed s ts) = None"
  "current_visit (cycle_completed s ts) = None"
  "weights (cycle_completed s ts) = weights s"
  "sensor_interruptions (cycle_completed s ts) = sensor_interruptions s"
  by (auto simp: cycle_completed_def Let_def split: option.splits)

lemma cycle_completed_visits:
  "visits (cycle_completed s ts) =
     (case current_visit s of
        None \<Rightarrow> visits s
      | Some v \<Rightarrow>
          visits s @
            [case cycle_start_time s of
               None \<Rightarrow> v
             | Some c \<Rightarrow> v\<lparr>clean_cycle_duration_seconds := Some (total_seconds (ts - c))\<rparr>])"
  by (auto simp: cycle_completed_def Let_def split: option.splits)

text \<open>
  Claim C3. Let the loop have processed the events \<open>es\<close>, in chronological order, and
  let the next event \<open>a\<close> take the branch of a completed clean cycle. Then the loop
  goes on without an exception, and in the new state: the counter of completed cycles is
  one more; if a visit was open, it is appended to the visit list, with the duration
  \<open>a_timestamp a - cycle_start\<close> (in seconds) when a cycle start was recorded and with no
  duration otherwise; if no visit was open, the visit list is unchanged and no duration
  is stored; no visit is open and no cycle start is recorded any more; the weights and
  the interruption counter are unchanged.
\<close>

theorem cycle_completed_event:
  assumes "run_loop initial_state es = Inr s"
    and "branch_of (a_action a) = CycleCompleted"
  shows "\<exists>s'. run_loop initial_state (es @ [a]) = Inr s'
           \<and> clean_cycles_completed s' = clean_cycles_completed s + 1
           \<and> visits s' =
               (case current_visit s of
                  None \<Rightarrow> visits s
                | Some v \<Rightarrow>
                    visits s @
                      [v\<lparr>clean_cycle_duration_seconds :=
                           map_option (\<lambda>c. total_seconds (a_timestamp a - c))
                             (cycle_start_time s)\<rparr>])
           \<and> current_visit s' = None
           \<and> cycle_start_time s' = None
           \<and> weights s' = weights s
           \<and> sensor_interruptions s' = sensor_interruptions s"
proof -
  have step: "run_loop initial_state (es @ [a]) = Inr (cycle_completed s (a_timestamp a))"
    using assms by (simp add: run_loop_snoc process_activity_def)
  have "\<forall>v. current_visit s = Some v \<longrightarrow> clean_cycle_duration_seconds v = None"
    using run_loop_fresh [OF assms(1)] by (simp add: initial_state_def)
  then have vs: "visits (cycle_completed s (a_timestamp a)) =
      (case current_visit s of
         None \<Rightarrow> visits s
       | Some v \<Rightarrow>
           visits s @
             [v\<lparr>clean_cycle_duration_seconds :=
                  map_option (\<lambda>c. total_seconds (a_timestamp a - c)) (cycle_start_time s)\<rparr>])"
    by (auto simp: cycle_completed_visits split: option.splits)
  show ?thesis
    using step vs by (simp add: cycle_completed_fields)
qed

theorem cycle_completed_event_witness:
  "run_loop initial_state
     [\<lparr>a_timestamp = 1700000000000000, a_action = ''CD''\<rparr>,
      \<lparr>a_timestamp = 1700000001000000, a_action = ''Pet Weight Recorded: 8.5 lbs''\<rparr>,
      \<lparr>a_timestamp = 1700000002000000, a_action = ''CCP''\<rparr>]
   = Inr \<lparr>visits = [], weights = [17 / 2], clean_cycles_completed = 0,
          sensor_interruptions = 0,
          current_visit =
            Some \<lparr>timestamp = 1700000000000000, weight_lbs = Some (17 / 2),
                  clean_cycle_duration_seconds = None\<rparr>,
          cycle_start_time = Some 1700000002000000\<rparr>
   \<and> branch_of (a_action \<lparr>a_timestamp = 1700000010000000, a_action = ''CCC''\<rparr>)
       = CycleCompleted
   \<and> (\<exists>s'. run_loop initial_state
              ([\<lparr>a_timestamp = 1700000000000000, a_action = ''CD''\<rparr>,
                \<lparr>a_timestamp = 1700000001000000,
                 a_action = ''Pet Weight Recorded: 8.5 lbs''\<rparr>,
                \<lparr>a_timestamp = 1700000002000000, a_action = ''CCP''\<rparr>]
               @ [\<lparr>a_timestamp = 1700000010000000, a_action = ''CCC''\<rparr>]) = Inr s'
          \<and> clean_cycles_completed s' = 1
          \<and> visits s' =
              [\<lparr>timestamp = 1700000000000000, weight_lbs = Some (17 / 2),
                clean_cycle_duration_seconds = Some 8\<rparr>]
          \<and> current_visit s' = None
          \<and> cycle_start_time s' = None
          \<and> weights s' = [17 / 2]
          \<and> sensor_interruptions s' = 0)"
proof -
  have br: "branch_of (a_action \<lparr>a_timestamp = 1700000010000000, a_action = ''CCC''\<rparr>)
      = CycleCompleted"
    by code_simp
  from cycle_completed_event [OF run_loop_scenario_a_prefix br] br
    run_loop_scenario_a_prefix
  show ?thesis
    by (simp add: total_seconds_def)
qed

subsection \<open>A detection\<close>

lemma process_activity_CatDetected:
  "branch_of (a_action a) = CatDetected \<Longrightarrow>
   process_activity s a =
     Inr (s\<lparr>current_visit :=
              Some \<lparr>timestamp = a_timestamp a, weight_lbs = None,
                    clean_cycle_duration_seconds = None\<rparr>\<rparr>)"
  by (simp add: process_activity_def)

lemma process_activity_other:
  assumes "process_activity s a = Inr s'"
    and "branch_of (a_action a) \<noteq> CycleCompleted"
  shows "visits s' = visits s \<and> clean_cycles_completed s' = clean_cycles_completed s"
  using assms
  by (auto simp: process_activity_def weight_recorded_def
      split: branch.splits option.splits sum.splits)

text \<open>Only the branch of a completed cycle changes the visit list and its counter.\<close>

lemma run_loop_other:
  assumes "run_loop s es = Inr s'"
    and "list_all (\<lambda>e. branch_of (a_action e) \<noteq> CycleCompleted) es"
  shows "visits s' = visits s \<and> clean_cycles_completed s' = clean_cycles_completed s"
  using assms
proof (induction es arbitrary: s)
  case Nil
  then show ?case by simp
next
  case (Cons a es)
  from Cons.prems(1) obtain s1 where
    step: "process_activity s a = Inr s1" and rest: "run_loop s1 es = Inr s'"
    by (auto split: sum.splits)
  from Cons.prems(2) have a: "branch_of (a_action a) \<noteq> CycleCompleted"
    and es: "list_all (\<lambda>e. branch_of (a_action e) \<noteq> CycleCompleted) es"
    by simp_all
  from process_activity_other [OF step a] Cons.IH [OF rest es] show ?case by simp
qed

lemma parse_single_detection:
  assumes "branch_of (a_action a) = CatDetected"
  shows "\<exists>st. parse_activity_history tz [a] = Inr st \<and> stats_visits st = []
            \<and> stats_clean_cycles_completed st = 0"
  using assms
  by (simp add: parse_activity_history_def process_activity_CatDetected initial_state_def
      date_range_of_def weight_trend_of_def visit_gaps_of_def regularity_trait_def
      visits_by_date_of_def weekly_trait_def Let_def)

text \<open>
  Claim C4. Let the event \<open>a\<close> take the branch of a detection. Then
  \<^item> processing it in any state \<open>s\<close> raises no exception and changes the state in one
    place: the open visit is a fresh one at the timestamp of \<open>a\<close>, with no weight and no
    duration;
  \<^item> a visit \<open>old\<close> that was open before is discarded: the loop continues, on any later
    events \<open>es\<close>, exactly as if no visit had been open, so \<open>old\<close> reaches no visit list;
  \<^item> if none of the later events \<open>es\<close> takes the branch of a completed cycle, the visit
    list and the counter of completed cycles at the end of the stream are those from
    before the detection;
  \<^item> in particular, for a history whose oldest event is the detection \<open>a\<close> and whose
    other events \<open>later\<close> complete no cycle, the statistics have no visit and count 0
    completed cycles; and for the history of \<open>a\<close> alone the statistics exist and have no
    visit and count 0 completed cycles.
\<close>

theorem cat_detected_event:
  assumes "branch_of (a_action a) = CatDetected"
  shows "process_activity s a =
           Inr (s\<lparr>current_visit :=
                    Some \<lparr>timestamp = a_timestamp a, weight_lbs = None,
                          clean_cycle_duration_seconds = None\<rparr>\<rparr>)
       \<and> run_loop (s\<lparr>current_visit := Some old\<rparr>) (a # es)
           = run_loop (s\<lparr>current_visit := None\<rparr>) (a # es)
       \<and> (list_all (\<lambda>e. branch_of (a_action e) \<noteq> CycleCompleted) es
            \<and> run_loop s (a # es) = Inr s'
          \<longrightarrow> visits s' = visits s \<and> clean_cycles_completed s' = clean_cycles_completed s)
       \<and> (list_all (\<lambda>e. branch_of (a_action e) \<noteq> CycleCompleted) later
            \<and> parse_activity_history tz (later @ [a]) = Inr st
          \<longrightarrow> stats_visits st = [] \<and> stats_clean_cycles_completed st = 0)
       \<and> (\<exists>st. parse_activity_history tz [a] = Inr st \<and> stats_visits st = []
              \<and> stats_clean_cycles_completed st = 0)"
proof -
  have not_completed: "branch_of (a_action a) \<noteq> CycleCompleted"
    using assms by simp
  have step: "process_activity s a =
           Inr (s\<lparr>current_visit :=
                    Some \<lparr>timestamp = a_timestamp a, weight_lbs = None,
                          clean_cycle_duration_seconds = None\<rparr>\<rparr>)"
    using assms by (rule process_activity_CatDetected)
  have discard: "run_loop (s\<lparr>current_visit := Some old\<rparr>) (a # es)
           = run_loop (s\<lparr>current_visit := None\<rparr>) (a # es)"
    by (simp add: process_activity_CatDetected [OF assms])
  have unchanged: "visits s' = visits s \<and> clean_cycles_completed s' = clean_cycles_completed s"
    if "list_all (\<lambda>e. branch_of (a_action e) \<noteq> CycleCompleted) es"
      and "run_loop s (a # es) = Inr s'"
  proof -
    have "list_all (\<lambda>e. branch_of (a_action e) \<noteq> CycleCompleted) (a # es)"
      using that(1) not_completed by simp
    from run_loop_other [OF that(2) this] show ?thesis .
  qed
  have none: "stats_visits st = [] \<and> stats_clean_cycles_completed st = 0"
    if "list_all (\<lambda>e. branch_of (a_action e) \<noteq> CycleCompleted) later"
      and "parse_activity_history tz (later @ [a]) = Inr st"
  proof -
    from parse_activity_history_loop [OF that(2)] obtain s1 where
      run: "run_loop initial_state (rev (later @ [a])) = Inr s1"
      and eq: "stats_visits st = visits s1"
        "stats_clean_cycles_completed st = clean_cycles_completed s1"
      by blast
    have "list_all (\<lambda>e. branch_of (a_action e) \<noteq> CycleCompleted) (rev (later @ [a]))"
      using that(1) not_completed by (simp add: list_all_iff)
    from run_loop_other [OF run this] eq show ?thesis
      by (simp add: initial_state_def)
  qed
  from step discard unchanged none parse_single_detection [OF assms] show ?thesis
    by blast
qed

lemma run_loop_second_detection:
  "run_loop
     \<lparr>visits = [], weights = [], clean_cycles_completed = 0, sensor_interruptions = 0,
      current_visit =
        Some \<lparr>timestamp = 1700000000000000, weight_lbs = None,
              clean_cycle_duration_seconds = None\<rparr>,
      cycle_start_time = None\<rparr>
     [\<lparr>a_timestamp = 1700003600000000, a_action = ''CD''\<rparr>,
      \<lparr>a_timestamp = 1700003601000000, a_action = ''Pet Weight Recorded: 8.5 lbs''\<rparr>]
   = Inr \<lparr>visits = [], weights = [17 / 2], clean_cycles_completed = 0,
          sensor_interruptions = 0,
          current_visit =
            Some \<lparr>timestamp = 1700003600000000, weight_lbs = Some (17 / 2),
                  clean_cycle_duration_seconds = None\<rparr>,
          cycle_start_time = None\<rparr>"
  by code_simp

lemma parse_dangling_detection:
  "parse_activity_history utc
     ([\<lparr>a_timestamp = 1700003601000000, a_action = ''Pet Weight Recorded: 8.5 lbs''\<rparr>]
      @ [\<lparr>a_timestamp = 1700003600000000, a_action = ''CD''\<rparr>])
   = Inr \<lparr>stats_visits = [],
          stats_weights = [17 / 2],
          stats_clean_cycles_completed = 0,
          stats_sensor_interruptions = 0,
          stats_date_range = (Some 1700003600000000, Some 1700003601000000),
          stats_days_covered = 1 / 86400,
          stats_visits_by_hour = [],
          stats_visits_by_date = [],
          stats_longest_gap = None,
          stats_shortest_gap = None,
          stats_weight_trend = None,
          stats_weight_change = None,
          stats_personality_traits = []\<rparr>"
  by code_simp

theorem cat_detected_event_witness:
  "branch_of (a_action \<lparr>a_timestamp = 1700003600000000, a_action = ''CD''\<rparr>) = CatDetected
   \<and> list_all (\<lambda>e. branch_of (a_action e) \<noteq> CycleCompleted)
       [\<lparr>a_timestamp = 1700003601000000, a_action = ''Pet Weight Recorded: 8.5 lbs''\<rparr>]
   \<and> (\<exists>s'. run_loop
              \<lparr>visits = [], weights = [], clean_cycles_completed = 0,
               sensor_interruptions = 0,
               current_visit =
                 Some \<lparr>timestamp = 1700000000000000, weight_lbs = None,
                       clean_cycle_duration_seconds = None\<rparr>,
               cycle_start_time = None\<rparr>
              [\<lparr>a_timestamp = 1700003600000000, a_action = ''CD''\<rparr>,
               \<lparr>a_timestamp = 1700003601000000,
                a_action = ''Pet Weight Recorded: 8.5 lbs''\<rparr>] = Inr s'
          \<and> visits s' = [] \<and> clean_cycles_completed s' = 0
          \<and> current_visit s' =
              Some \<lparr>timestamp = 1700003600000000, weight_lbs = Some (17 / 2),
                    clean_cycle_duration_seconds = None\<rparr>)
   \<and> (\<exists>st. parse_activity_history utc
              ([\<lparr>a_timestamp = 1700003601000000,
                 a_action = ''Pet Weight Recorded: 8.5 lbs''\<rparr>]
               @ [\<lparr>a_timestamp = 1700003600000000, a_action = ''CD''\<rparr>]) = Inr st
          \<and> stats_visits st = [] \<and> stats_clean_cycles_completed st = 0)"
proof -
  have br: "branch_of (a_action \<lparr>a_timestamp = 1700003600000000, a_action = ''CD''\<rparr>)
      = CatDetected"
    by code_simp
  have no: "list_all (\<lambda>e. branch_of (a_action e) \<noteq> CycleCompleted)
       [\<lparr>a_timestamp = 1700003601000000, a_action = ''Pet Weight Recorded: 8.5 lbs''\<rparr>]"
    by code_simp
  from cat_detected_event [OF br, where es = "[\<lparr>a_timestamp = 1700003601000000,
          a_action = ''Pet Weight Recorded: 8.5 lbs''\<rparr>]"
      and later = "[\<lparr>a_timestamp = 1700003601000000,
          a_action = ''Pet Weight Recorded: 8.5 lbs''\<rparr>]"
      and tz = utc]
    br no run_loop_second_detection parse_dangling_detection
  show ?thesis
    by simp
qed

subsection \<open>The order of the visit list\<close>

lemma pending_timestamps:
  assumes "process_activity s a = Inr s'"
  shows "map timestamp (pending s') =
           (if branch_of (a_action a) = CatDetected
            then map timestamp (visits s) @ [a_timestamp a]
            else map timestamp (pending s))"
  using assms
  by (auto simp: process_activity_def weight_recorded_def cycle_completed_def Let_def pending_def
      split: branch.splits option.splits sum.splits)

lemma process_activity_sorted:
  assumes step: "process_activity s a = Inr s'"
    and srt: "sorted (map timestamp (pending s))"
    and bnd: "\<forall>t \<in> set (map timestamp (pending s)). t \<le> a_timestamp a"
  shows "sorted (map timestamp (pending s'))
       \<and> (\<forall>t \<in> set (map timestamp (pending s')). t \<le> a_timestamp a)"
proof (cases rule: case_split [of "branch_of (a_action a) = CatDetected"])
  case True
  have eq: "map timestamp (pending s') = map timestamp (visits s) @ [a_timestamp a]"
    using pending_timestamps [OF step] True by simp
  have "sorted (map timestamp (visits s))"
    using srt by (simp add: pending_def sorted_append)
  moreover have "\<forall>t \<in> set (map timestamp (visits s)). t \<le> a_timestamp a"
    using bnd by (auto simp: pending_def)
  ultimately show ?thesis
    unfolding eq by (auto simp: sorted_append)
next
  case False
  have "map timestamp (pending s') = map timestamp (pending s)"
    using pending_timestamps [OF step] False by simp
  then show ?thesis using srt bnd by simp
qed

text \<open>
  The invariant of the loop on a chronological stream: the timestamps of the completed
  visits and of the open one are in order, and none is later than the events to come.
\<close>

lemma run_loop_sorted:
  assumes "run_loop s es = Inr s'"
    and "sorted (map a_timestamp es)"
    and "sorted (map timestamp (pending s))"
    and "\<forall>t \<in> set (map timestamp (pending s)). \<forall>e \<in> set es. t \<le> a_timestamp e"
  shows "sorted (map timestamp (pending s'))"
  using assms
proof (induction es arbitrary: s)
  case Nil
  then show ?case by simp
next
  case (Cons a es)
  from Cons.prems(1) obtain s1 where
    step: "process_activity s a = Inr s1" and rest: "run_loop s1 es = Inr s'"
    by (auto split: sum.splits)
  have later: "\<forall>e \<in> set es. a_timestamp a \<le> a_timestamp e"
    and srt_es: "sorted (map a_timestamp es)"
    using Cons.prems(2) by simp_all
  have bnd: "\<forall>t \<in> set (map timestamp (pending s)). t \<le> a_timestamp a"
    using Cons.prems(4) by simp
  from process_activity_sorted [OF step Cons.prems(3) bnd]
  have s1: "sorted (map timestamp (pending s1))"
    and b1: "\<forall>t \<in> set (map timestamp (pending s1)). t \<le> a_timestamp a"
    by simp_all
  have "\<forall>t \<in> set (map timestamp (pending s1)). \<forall>e \<in> set es. t \<le> a_timestamp e"
    using b1 later by force
  from Cons.IH [OF rest srt_es s1 this] show ?case .
qed

text \<open>
  Claim C5. If the history, read in chronological order (the reverse of the order it
  is given in), has timestamps that never decrease, then the visit list of the
  statistics has start timestamps that never decrease.
\<close>

theorem visits_in_timestamp_order:
  assumes "parse_activity_history tz activities = Inr st"
    and "sorted (map a_timestamp (rev activities))"
  shows "sorted (map timestamp (stats_visits st))"
proof -
  from parse_activity_history_loop [OF assms(1)] obtain s where
    run: "run_loop initial_state (rev activities) = Inr s" and vs: "stats_visits st = visits s"
    by blast
  have "sorted (map timestamp (pending s))"
    using run_loop_sorted [OF run] assms(2) by (simp add: pending_def initial_state_def)
  then show ?thesis
    by (simp add: vs pending_def sorted_append)
qed

theorem visits_in_timestamp_order_witness:
  "sorted (map a_timestamp (rev two_visits))
   \<and> (\<exists>st. parse_activity_history utc two_visits = Inr st
          \<and> map timestamp (stats_visits st) = [1700000000000000, 1700003600000000]
          \<and> sorted (map timestamp (stats_visits st)))"
proof -
  have srt: "sorted (map a_timestamp (rev two_visits))"
    by (simp add: two_visits_def scenario_a_def)
  from visits_in_timestamp_order [OF parse_two_visits srt] srt parse_two_visits
  show ?thesis
    by simp
qed

subsection \<open>Visits and completed cycles\<close>

text \<open>
  Claim C9. The visit list of the statistics is never longer than the count of
  completed clean cycles.
\<close>

theorem visits_at_most_completed_cycles:
  assumes "parse_activity_history tz activities = Inr st"
  shows "length (stats_visits st) \<le> stats_clean_cycles_completed st"
proof -
  from parse_activity_history_loop [OF assms] obtain s where
    run: "run_loop initial_state (rev activities) = Inr s"
    and eq: "stats_visits st = visits s"
      "stats_clean_cycles_completed st = clean_cycles_completed s"
    by blast
  have "length (visits initial_state) \<le> clean_cycles_completed initial_state"
    by (simp add: initial_state_def)
  from run_loop_count [OF run this] eq show ?thesis by simp
qed

theorem visits_at_most_completed_cycles_witness:
  "\<exists>st. parse_activity_history utc two_visits = Inr st
      \<and> length (stats_visits st) = 2 \<and> stats_clean_cycles_completed st = 3
      \<and> length (stats_visits st) \<le> stats_clean_cycles_completed st"
  using visits_at_most_completed_cycles [OF parse_two_visits] parse_two_visits
  by simp

section \<open>Properties of the statistics\<close>

subsection \<open>The weight trend\<close>



lemma parse_activity_history_trend:
  assumes "parse_activity_history tz activities = Inr st"
  shows "weight_trend_of (stats_weights st) = Inr (stats_weight_trend st, stats_weight_change st)"
  using assms
  by (auto simp: parse_activity_history_def Let_def split: sum.splits prod.splits)



subsection \<open>Time-of-day dominance\<close>

lemma get_count_Nil: "get_count [] h = 0"
  by (simp add: get_count_def)

lemma get_count_incr_hour:
  "get_count (incr_hour m h) k = (if k = h then get_count m h + 1 else get_count m k)"
  by (induction m h rule: incr_hour.induct) (auto simp: get_count_def)

lemma get_count_foldl:
  "get_count (foldl (\<lambda>m v. incr_hour m (f v)) m0 vs) h
     = get_count m0 h + length (filter (\<lambda>v. f v = h) vs)"
  by (induction vs arbitrary: m0) (auto simp: get_count_incr_hour)

text \<open>The dictionary \<^verbatim>\<open>visits_by_hour\<close> counts the visits of each local hour.\<close>

lemma get_count_visits_by_hour: "get_count (visits_by_hour_of tz vs) h = hour_count tz vs h"
  by (simp add: visits_by_hour_of_def hour_count_def get_count_foldl get_count_Nil)

lemma sum_list_partition:
  "sum_list (map (get_count (visits_by_hour_of tz vs)) [lo..<hi]) = partition_sum tz vs lo hi"
  by (simp add: partition_sum_def get_count_visits_by_hour interv_sum_list_conv_sum_set_nat)

lemma incr_hour_not_Nil: "incr_hour m h \<noteq> []"
  by (induction m h rule: incr_hour.induct) auto

lemma foldl_incr_hour_not_Nil: "m0 \<noteq> [] \<Longrightarrow> foldl (\<lambda>m v. incr_hour m (f v)) m0 vs \<noteq> []"
  by (induction vs arbitrary: m0) (auto simp: incr_hour_not_Nil)

lemma visits_by_hour_of_Nil: "visits_by_hour_of tz vs = [] \<longleftrightarrow> vs = []"
proof (cases vs)
  case Nil
  then show ?thesis by (simp add: visits_by_hour_of_def)
next
  case (Cons v vs')
  then show ?thesis
    by (simp add: visits_by_hour_of_def foldl_incr_hour_not_Nil incr_hour_not_Nil)
qed

lemma partition_sum_Nil: "partition_sum tz [] lo hi = 0"
  by (simp add: partition_sum_def hour_count_def)

text \<open>\<^verbatim>\<open>max\<close> with a key on the four periods: the first of the greatest.\<close>

lemma max_by_key_periods:
  "max_by_key fst (n, l1) [(m, l2), (a, l3), (e, l4)] =
     (if m \<le> n \<and> a \<le> n \<and> e \<le> n then (n, l1)
      else if a \<le> m \<and> e \<le> m then (m, l2)
      else if e \<le> a then (a, l3)
      else (e, l4))"
  for n m a e :: nat
  by (auto simp: max_by_key_def)

lemma time_of_day_trait_rule:
  "time_of_day_trait (visits_by_hour_of tz vs) = dominance_rule tz vs"
proof (cases vs)
  case Nil
  then show ?thesis
    by (simp add: time_of_day_trait_def dominance_rule_def visits_by_hour_of_def
        partition_sum_Nil)
next
  case (Cons v vs')
  then have "visits_by_hour_of tz vs \<noteq> []"
    by (simp add: visits_by_hour_of_Nil)
  then have "time_of_day_trait (visits_by_hour_of tz vs) =
      (let dominant_period =
             max_by_key fst (partition_sum tz vs 0 6, ''Night Owl'')
               [(partition_sum tz vs 6 12, ''Early Bird''),
                (partition_sum tz vs 12 18, ''Afternoon Aristocat''),
                (partition_sum tz vs 18 24, ''Evening Eliminator'')]
       in if fst dominant_period > 0 then [snd dominant_period] else [])"
    unfolding time_of_day_trait_def sum_list_partition Let_def by simp
  then show ?thesis
    by (auto simp: dominance_rule_def max_by_key_periods Let_def)
qed

lemma parse_activity_history_traits:
  assumes "parse_activity_history tz activities = Inr st"
  shows "stats_personality_traits st
           = time_of_day_trait (visits_by_hour_of tz (stats_visits st))
             @ drop (length (time_of_day_trait (visits_by_hour_of tz (stats_visits st))))
                 (stats_personality_traits st)"
  using assms
  by (auto simp: parse_activity_history_def Let_def split: sum.splits prod.splits)

text \<open>
  Claim C7. For every visit list, what the source computes for the time of day is the
  rule of the specification: with the numbers of visits per local hour summed over Night
  (hours 0 to 5), Morning (6 to 11), Afternoon (12 to 17) and Evening (18 to 23), the
  range with the greatest sum is selected, the first in this order winning a tie, and its
  label is given if and only if that sum is greater than 0. The traits of the statistics
  begin with the outcome of this rule on the visit list of the statistics.
\<close>

theorem time_of_day_dominance:
  "time_of_day_trait (visits_by_hour_of tz vs) = dominance_rule tz vs
   \<and> (parse_activity_history tz activities = Inr st
      \<longrightarrow> (\<exists>others. stats_personality_traits st
             = dominance_rule tz (stats_visits st) @ others))"
proof -
  have "\<exists>others. stats_personality_traits st = dominance_rule tz (stats_visits st) @ others"
    if "parse_activity_history tz activities = Inr st"
    using parse_activity_history_traits [OF that]
    unfolding time_of_day_trait_rule by (rule exI)
  then show ?thesis
    by (simp add: time_of_day_trait_rule)
qed

lemma parse_tie_visits:
  "parse_activity_history utc tie_visits =
     Inr \<lparr>stats_visits =
            [\<lparr>timestamp = 1700000000000000, weight_lbs = None,
              clean_cycle_duration_seconds = None\<rparr>,
             \<lparr>timestamp = 1700014400000000, weight_lbs = None,
              clean_cycle_duration_seconds = None\<rparr>],
          stats_weights = [],
          stats_clean_cycles_completed = 2,
          stats_sensor_interruptions = 0,
          stats_date_range = (Some 1700000000000000, Some 1700014420000000),
          stats_days_covered = 721 / 4320,
          stats_visits_by_hour = [(22, 1), (2, 1)],
          stats_visits_by_date =
            [(''2023-11-14'',
              \<lparr>d_count = 1, d_weekday = 1, d_weekday_name = ''Tue'', d_display = ''11/14''\<rparr>),
             (''2023-11-15'',
              \<lparr>d_count = 1, d_weekday = 2, d_weekday_name = ''Wed'', d_display = ''11/15''\<rparr>)],
          stats_longest_gap = Some 14400000000,
          stats_shortest_gap = Some 14400000000,
          stats_weight_trend = None,
          stats_weight_change = None,
          stats_personality_traits =
            [''Night Owl'', ''Creature of Habit'', ''Weekday Regular'']\<rparr>"
  by code_simp

lemma dominance_rule_tie:
  "dominance_rule utc
     [\<lparr>timestamp = 1700000000000000, weight_lbs = None,
       clean_cycle_duration_seconds = None\<rparr>,
      \<lparr>timestamp = 1700014400000000, weight_lbs = None,
       clean_cycle_duration_seconds = None\<rparr>] = [''Night Owl'']"
  by code_simp

theorem time_of_day_dominance_witness:
  "\<exists>st. parse_activity_history utc tie_visits = Inr st
      \<and> map (\<lambda>v. lt_hour (utc (timestamp v))) (stats_visits st) = [22, 2]
      \<and> dominance_rule utc (stats_visits st) = [''Night Owl'']
      \<and> (\<exists>others. stats_personality_traits st = [''Night Owl''] @ others)"
proof -
  have hours: "map (\<lambda>v. lt_hour (utc (timestamp v)))
      [\<lparr>timestamp = 1700000000000000, weight_lbs = None,
        clean_cycle_duration_seconds = None\<rparr>,
       \<lparr>timestamp = 1700014400000000, weight_lbs = None,
        clean_cycle_duration_seconds = None\<rparr>] = [22, 2]"
    by code_simp
  from time_of_day_dominance [where tz = utc and activities = tie_visits]
    parse_tie_visits dominance_rule_tie hours
  show ?thesis
    by simp
qed

section \<open>Properties of the document\<close>

subsection \<open>What \<^verbatim>\<open>build_data_json\<close> returns\<close>

lemma build_data_json_fields:
  assumes "build_data_json tz now stats robot cat = Inr doc"
  shows "total_visits doc = length (stats_visits stats)"
    and "out_oz (output_block doc) = py_round (of_nat (length (stats_visits stats)) * (5 / 2)) 0"
    and "out_lbs (output_block doc)
           = py_round (of_nat (length (stats_visits stats)) * (5 / 2) / 16) 1"
    and "w_trend (weight doc) = stats_weight_trend stats"
    and "w_change (weight doc)
           = py_round (case stats_weight_change stats of None \<Rightarrow> 0 | Some c \<Rightarrow> c) 2"
    and "visits_per_day doc
           = py_round (of_nat (length (stats_visits stats))
                       / (if stats_days_covered stats = 0 then 1 else stats_days_covered stats)) 1"
  using assms
  by (auto simp: build_data_json_def Let_def truediv_def split: sum.splits prod.splits if_splits option.splits)

lemma busiest_date_of_error: "busiest_date_of vbd = Inl e \<Longrightarrow> e = IndexError"
  by (auto simp: busiest_date_of_def Let_def split: list.splits if_splits)

lemma date_range_doc_of_error: "date_range_doc_of ls le = Inl e \<Longrightarrow> e = AttributeError"
  by (auto simp: date_range_doc_of_def split: option.splits)

text \<open>The divisions are guarded: no path of the function ends in a division by zero.\<close>

lemma build_data_json_error:
  assumes "build_data_json tz now stats robot cat = Inl e"
  shows "e = IndexError \<or> e = AttributeError"
  using assms
  by (auto simp: build_data_json_def Let_def truediv_def
      split: sum.splits prod.splits if_splits
      dest: busiest_date_of_error date_range_doc_of_error)

lemma max_by_key_mem: "max_by_key key x xs \<in> set (x # xs)"
proof -
  have "foldl (\<lambda>best y. if key best < key y then y else best) x xs \<in> set (x # xs)"
    by (induction xs arbitrary: x) (auto split: if_splits)
  then show ?thesis by (simp add: max_by_key_def)
qed

lemma busiest_date_of_total:
  assumes "list_all (\<lambda>(k, e). d_weekday e < 7) vbd"
  shows "\<exists>b. busiest_date_of vbd = Inr b"
proof (cases vbd)
  case Nil
  then show ?thesis by (simp add: busiest_date_of_def)
next
  case (Cons kv kvs)
  have "max_by_key (\<lambda>k. d_count (snd k)) kv kvs \<in> set vbd"
    using max_by_key_mem [of "\<lambda>k. d_count (snd k)" kv kvs] Cons by simp
  with assms have "d_weekday (snd (max_by_key (\<lambda>k. d_count (snd k)) kv kvs)) < 7"
    by (auto simp: list_all_iff)
  then show ?thesis
    using Cons by (simp add: busiest_date_of_def day_names_def Let_def)
qed

lemma date_range_doc_of_total:
  assumes "ls \<noteq> None \<longrightarrow> le \<noteq> None"
  shows "\<exists>d. date_range_doc_of ls le = Inr d"
  using assms by (auto simp: date_range_doc_of_def split: option.splits)

lemma build_data_json_total:
  assumes "list_all (\<lambda>(k, e). d_weekday e < 7) (stats_visits_by_date stats)"
    and "fst (stats_date_range stats) \<noteq> None \<longrightarrow> snd (stats_date_range stats) \<noteq> None"
  shows "\<exists>doc. build_data_json tz now stats robot cat = Inr doc"
proof -
  from busiest_date_of_total [OF assms(1)] obtain b where
    b: "busiest_date_of (stats_visits_by_date stats) = Inr b" ..
  obtain range_start range_end where
    dr: "stats_date_range stats = (range_start, range_end)"
    by fastforce
  from assms(2) dr have "map_option tz range_start \<noteq> None
      \<longrightarrow> map_option tz range_end \<noteq> None"
    by simp
  from date_range_doc_of_total [OF this] obtain d where
    "date_range_doc_of (map_option tz range_start) (map_option tz range_end) = Inr d" ..
  with b dr show ?thesis
    by (simp add: build_data_json_def Let_def truediv_def)
qed

lemma incr_date_weekdays:
  assumes "list_all (\<lambda>(k, e). d_weekday e < 7) m" and "d_weekday fresh < 7"
  shows "list_all (\<lambda>(k, e). d_weekday e < 7) (incr_date m date_key fresh)"
  using assms by (induction m date_key fresh rule: incr_date.induct) auto

lemma visits_by_date_of_weekdays:
  assumes "\<forall>t. lt_weekday (tz t) < 7"
  shows "list_all (\<lambda>(k, e). d_weekday e < 7) (visits_by_date_of tz vs)"
proof -
  have "list_all (\<lambda>(k, e). d_weekday e < 7)
      (foldl (\<lambda>m v. let local_time = tz (timestamp v)
                    in incr_date m (lt_Y_m_d local_time)
                         \<lparr>d_count = 0, d_weekday = lt_weekday local_time,
                          d_weekday_name = lt_a local_time, d_display = lt_m_d local_time\<rparr>)
         m0 vs)"
    if "list_all (\<lambda>(k, e). d_weekday e < 7) m0" for m0
    using that assms
    by (induction vs arbitrary: m0) (simp_all add: incr_date_weekdays Let_def)
  then show ?thesis
    by (simp add: visits_by_date_of_def)
qed

lemma date_range_of_both:
  "fst (date_range_of activities) \<noteq> None \<longrightarrow> fst (snd (date_range_of activities)) \<noteq> None"
  by (simp add: date_range_of_def Let_def split: list.splits)

lemma parse_activity_history_document_fields:
  assumes "parse_activity_history tz activities = Inr st"
  shows "stats_visits_by_date st = visits_by_date_of tz (stats_visits st)"
    and "stats_date_range st
           = (fst (date_range_of activities), fst (snd (date_range_of activities)))"
  using assms
  by (auto simp: parse_activity_history_def Let_def split: sum.splits prod.splits)

text \<open>
  On the statistics of a history, and in a zone whose weekdays are 0 to 6, the document
  is returned.
\<close>

lemma build_data_json_returns:
  assumes "parse_activity_history tz activities = Inr st"
    and "\<forall>t. lt_weekday (tz t) < 7"
  shows "\<exists>doc. build_data_json tz now st robot cat = Inr doc"
proof (rule build_data_json_total)
  show "list_all (\<lambda>(k, e). d_weekday e < 7) (stats_visits_by_date st)"
    using parse_activity_history_document_fields(1) [OF assms(1)]
      visits_by_date_of_weekdays [OF assms(2)] by simp
  show "fst (stats_date_range st) \<noteq> None \<longrightarrow> snd (stats_date_range st) \<noteq> None"
    using parse_activity_history_document_fields(2) [OF assms(1)] date_range_of_both
    by simp
qed

lemma utc_weekday: "lt_weekday (utc t) < 7"
proof -
  have "nat ((k + 3) mod 7) < 7" for k :: int
    using pos_mod_bound [of 7 "k + 3"] pos_mod_sign [of 7 "k + 3"] by linarith
  then show ?thesis
    by (simp add: utc_def Let_def split: prod.splits)
qed

subsection \<open>Rounding\<close>

lemma round_half_even_of_int: "round_half_even (of_int k) = k"
  by (simp add: round_half_even_def)

lemma py_round_of_nat: "py_round (of_nat n) ndigits = of_nat n"
proof -
  have "(of_nat n :: rat) * 10 ^ ndigits = of_int (int n * 10 ^ ndigits)"
    by simp
  then have "round_half_even (of_nat n * 10 ^ ndigits) = int n * 10 ^ ndigits"
    by (simp only: round_half_even_of_int)
  then show ?thesis
    by (simp add: py_round_def)
qed

lemma py_round_zero: "py_round 0 ndigits = 0"
  using py_round_of_nat [of 0 ndigits] by simp

lemma py_round_samples:
  "py_round (of_nat 1) 1 = 1"
  "py_round (of_nat 1 * (5 / 2)) 0 = 2"
  "py_round (of_nat 1 * (5 / 2) / 16) 1 = 1 / 5"
  "py_round (2 / 16) 1 = 1 / 10"
  by code_simp+

lemma str_nat_12: "str_nat 12 = ''12''"
  by code_simp

subsection \<open>The examples, as documents\<close>

lemma parse_same_instant:
  "parse_activity_history utc same_instant =
     Inr \<lparr>stats_visits =
            [\<lparr>timestamp = 1700000000000000, weight_lbs = None,
              clean_cycle_duration_seconds = None\<rparr>],
          stats_weights = [],
          stats_clean_cycles_completed = 1,
          stats_sensor_interruptions = 0,
          stats_date_range = (Some 1700000000000000, Some 1700000000000000),
          stats_days_covered = 0,
          stats_visits_by_hour = [(22, 1)],
          stats_visits_by_date =
            [(''2023-11-14'',
              \<lparr>d_count = 1, d_weekday = 1, d_weekday_name = ''Tue'', d_display = ''11/14''\<rparr>)],
          stats_longest_gap = None,
          stats_shortest_gap = None,
          stats_weight_trend = None,
          stats_weight_change = None,
          stats_personality_traits = [''Evening Eliminator'', ''Weekday Regular'']\<rparr>"
  by code_simp

lemma doc_scenario_a:
  "example_doc scenario_a =
     Inr \<lparr>cat_name = ''Kitty'',
          robot_name = ''Litter-Robot'',
          generated_at = ''2023-11-15T09:00:00-08:00'',
          date_range =
            \<lparr>dr_start = Some ''Nov 14'', dr_end = Some ''Nov 14, 2023'',
             dr_display = Some ''Nov 14 - Nov 14, 2023''\<rparr>,
          personality_traits = [''Evening Eliminator'', ''Weekday Regular''],
          total_visits = 1,
          visits_per_day = 8640,
          chart_data = [\<lparr>cd_weekday = ''Tue'', cd_display = ''11/14'', cd_count = 1\<rparr>],
          timing = \<lparr>t_longest_gap = ''N/A'', t_shortest_gap = ''N/A''\<rparr>,
          weight =
            \<lparr>w_average = 17 / 2, w_min = 17 / 2, w_max = 17 / 2, w_trend = None,
             w_change = 0\<rparr>,
          peak_hour = \<lparr>ph_hour = 22, ph_count = 1, ph_display = ''10:00 PM''\<rparr>,
          busiest_date =
            Some \<lparr>bd_day_name = ''Tuesday'', bd_display = ''11/14'', bd_count = 1,
                  bd_is_weekend = False\<rparr>,
          robot_stats = \<lparr>rs_clean_cycles = 1, rs_interruptions = 0\<rparr>,
          output_block = \<lparr>out_oz = 2, out_lbs = 1 / 5\<rparr>\<rparr>"
  by code_simp

lemma doc_empty:
  "example_doc [] =
     Inr \<lparr>cat_name = ''Kitty'',
          robot_name = ''Litter-Robot'',
          generated_at = ''2023-11-15T09:00:00-08:00'',
          date_range = \<lparr>dr_start = None, dr_end = None, dr_display = Some ''''\<rparr>,
          personality_traits = [],
          total_visits = 0,
          visits_per_day = 0,
          chart_data = [],
          timing = \<lparr>t_longest_gap = ''N/A'', t_shortest_gap = ''N/A''\<rparr>,
          weight = \<lparr>w_average = 0, w_min = 0, w_max = 0, w_trend = None, w_change = 0\<rparr>,
          peak_hour = \<lparr>ph_hour = 0, ph_count = 0, ph_display = ''12:00 AM''\<rparr>,
          busiest_date = None,
          robot_stats = \<lparr>rs_clean_cycles = 0, rs_interruptions = 0\<rparr>,
          output_block = \<lparr>out_oz = 0, out_lbs = 0\<rparr>\<rparr>"
  by code_simp

lemma parse_activity_history_empty:
  "parse_activity_history tz [] =
     Inr \<lparr>stats_visits = [],
          stats_weights = [],
          stats_clean_cycles_completed = 0,
          stats_sensor_interruptions = 0,
          stats_date_range = (None, None),
          stats_days_covered = 0,
          stats_visits_by_hour = [],
          stats_visits_by_date = [],
          stats_longest_gap = None,
          stats_shortest_gap = None,
          stats_weight_trend = None,
          stats_weight_change = None,
          stats_personality_traits = []\<rparr>"
  by (simp add: parse_activity_history_def initial_state_def date_range_of_def
      visits_by_hour_of_def visits_by_date_of_def visit_gaps_of_def weight_trend_of_def
      regularity_trait_def weekly_trait_def time_of_day_trait_def longest_gap_of_def
      shortest_gap_of_def)

subsection \<open>Visits per day\<close>

lemma foldl_min_Min: "foldl min t ts = Min (set (t # ts))"
  for t :: int
proof -
  have "(\<lambda>x s. min s x) = (min :: int \<Rightarrow> int \<Rightarrow> int)"
    by (intro ext) (simp add: min.commute)
  then show ?thesis
    by (simp only: foldl_conv_fold Min.set_eq_fold)
qed

lemma foldl_max_Max: "foldl max t ts = Max (set (t # ts))"
  for t :: int
proof -
  have "(\<lambda>x s. max s x) = (max :: int \<Rightarrow> int \<Rightarrow> int)"
    by (intro ext) (simp add: max.commute)
  then show ?thesis
    by (simp only: foldl_conv_fold Max.set_eq_fold)
qed

lemma Max_eq_Min_iff:
  fixes S :: "int set"
  assumes "finite S" and "S \<noteq> {}"
  shows "Max S = Min S \<longleftrightarrow> (\<forall>a \<in> S. \<forall>b \<in> S. a = b)"
proof
  assume eq: "Max S = Min S"
  have "a = Min S" if "a \<in> S" for a
  proof -
    have "Min S \<le> a" and "a \<le> Max S"
      using that assms by simp_all
    with eq show ?thesis by linarith
  qed
  then show "\<forall>a \<in> S. \<forall>b \<in> S. a = b" by metis
next
  assume "\<forall>a \<in> S. \<forall>b \<in> S. a = b"
  moreover have "Max S \<in> S" and "Min S \<in> S"
    using assms by simp_all
  ultimately show "Max S = Min S" by blast
qed

lemma days_covered_zero:
  "snd (snd (date_range_of activities)) = 0
     \<longleftrightarrow> (\<forall>a \<in> set activities. \<forall>b \<in> set activities. a_timestamp a = a_timestamp b)"
proof (cases activities)
  case Nil
  then show ?thesis by (simp add: date_range_of_def)
next
  case (Cons a as)
  let ?S = "set (map a_timestamp activities)"
  have S: "finite ?S" "?S \<noteq> {}"
    using Cons by simp_all
  have "snd (snd (date_range_of activities)) = 0 \<longleftrightarrow> Max ?S = Min ?S"
  proof -
    have "snd (snd (date_range_of activities))
        = total_seconds (foldl max (a_timestamp a) (map a_timestamp as)
                         - foldl min (a_timestamp a) (map a_timestamp as)) / 86400"
      using Cons by (simp add: date_range_of_def Let_def)
    also have "\<dots> = total_seconds (Max ?S - Min ?S) / 86400"
      unfolding foldl_min_Min foldl_max_Max using Cons by simp
    finally have eq: "snd (snd (date_range_of activities))
        = total_seconds (Max ?S - Min ?S) / 86400" .
    show ?thesis
      unfolding eq total_seconds_def by simp
  qed
  also have "\<dots> \<longleftrightarrow> (\<forall>x \<in> ?S. \<forall>y \<in> ?S. x = y)"
    by (rule Max_eq_Min_iff [OF S])
  also have "\<dots> \<longleftrightarrow> (\<forall>a \<in> set activities. \<forall>b \<in> set activities. a_timestamp a = a_timestamp b)"
    by auto
  finally show ?thesis .
qed

lemma parse_activity_history_days:
  assumes "parse_activity_history tz activities = Inr st"
  shows "stats_days_covered st = snd (snd (date_range_of activities))"
  using assms
  by (auto simp: parse_activity_history_def Let_def split: sum.splits prod.splits)

text \<open>
  Claim C10. \<^verbatim>\<open>build_data_json\<close> never raises \<^verbatim>\<open>ZeroDivisionError\<close>, whatever the
  statistics. When the days covered are 0, the divisor of the visits per day is 1: the
  visits per day of the document are the number of visits rounded to 1 decimal place,
  which is that number itself. On the statistics of a history the document is returned
  (in a zone whose weekdays are 0 to 6, as \<^verbatim>\<open>weekday()\<close> gives them). The days covered
  that \<^verbatim>\<open>parse_activity_history\<close> computes are 0 exactly when all events have one
  timestamp, which includes the empty history.
\<close>

theorem visits_per_day_divisor:
  "build_data_json tz now stats robot cat \<noteq> Inl ZeroDivisionError
   \<and> (stats_days_covered stats = 0 \<and> build_data_json tz now stats robot cat = Inr doc
      \<longrightarrow> visits_per_day doc = py_round (of_nat (length (stats_visits stats))) 1
          \<and> visits_per_day doc = of_nat (total_visits doc))
   \<and> (parse_activity_history tz activities = Inr st \<and> (\<forall>t. lt_weekday (tz t) < 7)
      \<longrightarrow> (\<exists>d. build_data_json tz now st robot cat = Inr d))
   \<and> (parse_activity_history tz activities = Inr st
      \<longrightarrow> (stats_days_covered st = 0
             \<longleftrightarrow> (\<forall>a \<in> set activities. \<forall>b \<in> set activities.
                    a_timestamp a = a_timestamp b)))"
proof -
  have no_zero: "build_data_json tz now stats robot cat \<noteq> Inl ZeroDivisionError"
    using build_data_json_error [of tz now stats robot cat ZeroDivisionError] by auto
  have per_day: "visits_per_day doc = py_round (of_nat (length (stats_visits stats))) 1
          \<and> visits_per_day doc = of_nat (total_visits doc)"
    if zero: "stats_days_covered stats = 0"
      and doc: "build_data_json tz now stats robot cat = Inr doc"
    using build_data_json_fields(1,6) [OF doc] zero
    by (simp add: py_round_of_nat)
  have returns: "\<exists>d. build_data_json tz now st robot cat = Inr d"
    if "parse_activity_history tz activities = Inr st" and "\<forall>t. lt_weekday (tz t) < 7"
    using that by (rule build_data_json_returns)
  have span: "stats_days_covered st = 0
      \<longleftrightarrow> (\<forall>a \<in> set activities. \<forall>b \<in> set activities. a_timestamp a = a_timestamp b)"
    if "parse_activity_history tz activities = Inr st"
    using parse_activity_history_days [OF that] days_covered_zero by simp
  from no_zero per_day returns span show ?thesis by blast
qed

theorem visits_per_day_divisor_witness:
  "(\<forall>t. lt_weekday (utc t) < 7)
   \<and> list_all (\<lambda>a. list_all (\<lambda>b. a_timestamp a = a_timestamp b) same_instant) same_instant
   \<and> (\<exists>st doc. parse_activity_history utc same_instant = Inr st
          \<and> stats_days_covered st = 0
          \<and> length (stats_visits st) = 1
          \<and> build_data_json utc ''2023-11-15T09:00:00-08:00'' st ''Litter-Robot'' ''Kitty''
              \<noteq> Inl ZeroDivisionError
          \<and> build_data_json utc ''2023-11-15T09:00:00-08:00'' st ''Litter-Robot'' ''Kitty''
              = Inr doc
          \<and> visits_per_day doc = 1 \<and> total_visits doc = 1)"
proof -
  let ?st = "projr (parse_activity_history utc same_instant)"
  have run: "parse_activity_history utc same_instant = Inr ?st"
    by (simp add: parse_same_instant)
  have zero: "stats_days_covered ?st = 0"
    and one: "length (stats_visits ?st) = 1"
    by (simp_all add: parse_same_instant)
  have wd: "\<forall>t. lt_weekday (utc t) < 7"
    by (simp add: utc_weekday)
  have same: "list_all (\<lambda>a. list_all (\<lambda>b. a_timestamp a = a_timestamp b) same_instant)
      same_instant"
    by (simp add: same_instant_def)
  note inst = visits_per_day_divisor [of utc "''2023-11-15T09:00:00-08:00''" ?st
      "''Litter-Robot''" "''Kitty''" _ same_instant ?st]
  from inst run wd obtain doc where
    doc: "build_data_json utc ''2023-11-15T09:00:00-08:00'' ?st ''Litter-Robot'' ''Kitty''
        = Inr doc"
    by blast
  from inst [of doc] zero doc
  have nz: "build_data_json utc ''2023-11-15T09:00:00-08:00'' ?st ''Litter-Robot'' ''Kitty''
        \<noteq> Inl ZeroDivisionError"
    and r: "visits_per_day doc = py_round (of_nat (length (stats_visits ?st))) 1"
    and n: "visits_per_day doc = of_nat (total_visits doc)"
    by blast+
  have "visits_per_day doc = 1"
    unfolding r one by (rule py_round_samples(1))
  with n have "visits_per_day doc = 1 \<and> total_visits doc = 1"
    by simp
  with run zero one same wd nz doc show ?thesis
    by blast
qed

subsection \<open>The estimated output\<close>

text \<open>
  Claim C8, amended. For every history for which the document exists, its total of
  visits is the length of the visit list, the ounces are \<open>total_visits * 2.5\<close> rounded to
  0 decimal places (a tie going to the even value), and the pounds are
  \<open>total_visits * 2.5 / 16\<close>, the quotient of the product that is not rounded, rounded to
  1 decimal place.
\<close>

theorem output_estimate:
  assumes "data_json tz now activities robot cat = Inr doc"
  shows "\<exists>st. parse_activity_history tz activities = Inr st
           \<and> total_visits doc = length (stats_visits st)
           \<and> out_oz (output_block doc) = py_round (of_nat (total_visits doc) * (5 / 2)) 0
           \<and> out_lbs (output_block doc)
               = py_round (of_nat (total_visits doc) * (5 / 2) / 16) 1"
proof -
  from assms obtain st where
    st: "parse_activity_history tz activities = Inr st"
    and doc: "build_data_json tz now st robot cat = Inr doc"
    by (auto simp: data_json_def split: sum.splits)
  from build_data_json_fields(1-3) [OF doc] st show ?thesis
    by simp
qed

theorem output_estimate_witness:
  "\<exists>doc. example_doc scenario_a = Inr doc
      \<and> total_visits doc = 1
      \<and> out_oz (output_block doc) = 2
      \<and> out_lbs (output_block doc) = 1 / 5"
proof -
  let ?doc = "projr (example_doc scenario_a)"
  have run: "data_json utc ''2023-11-15T09:00:00-08:00'' scenario_a ''Litter-Robot'' ''Kitty''
      = Inr ?doc"
    using doc_scenario_a by (simp add: example_doc_def)
  have one: "total_visits ?doc = 1"
    by (simp add: doc_scenario_a)
  from output_estimate [OF run]
  have "out_oz (output_block ?doc) = py_round (of_nat (total_visits ?doc) * (5 / 2)) 0"
    and "out_lbs (output_block ?doc) = py_round (of_nat (total_visits ?doc) * (5 / 2) / 16) 1"
    by blast+
  then have "out_oz (output_block ?doc) = 2 \<and> out_lbs (output_block ?doc) = 1 / 5"
    unfolding one by (simp only: py_round_samples)
  moreover have "example_doc scenario_a = Inr ?doc"
    by (simp add: doc_scenario_a)
  ultimately show ?thesis
    using one by blast
qed

text \<open>
  Claim C8 as stated takes the pounds from the ounces of the document, which are
  rounded. For the one visit of Scenario A the ounces are 2 and the pounds are 0.2, while
  the ounces of the document divided by 16 and rounded to 1 decimal place are 0.1.
\<close>

theorem output_lbs_counterexample:
  "\<not> isl (example_doc scenario_a)
   \<and> total_visits (projr (example_doc scenario_a)) = 1
   \<and> out_oz (output_block (projr (example_doc scenario_a))) = 2
   \<and> out_lbs (output_block (projr (example_doc scenario_a))) = 1 / 5
   \<and> py_round (out_oz (output_block (projr (example_doc scenario_a))) / 16) 1 = 1 / 10
   \<and> out_lbs (output_block (projr (example_doc scenario_a)))
       \<noteq> py_round (out_oz (output_block (projr (example_doc scenario_a))) / 16) 1"
proof -
  have doc: "\<not> isl (example_doc scenario_a)"
    "total_visits (projr (example_doc scenario_a)) = 1"
    "out_oz (output_block (projr (example_doc scenario_a))) = 2"
    "out_lbs (output_block (projr (example_doc scenario_a))) = 1 / 5"
    by (simp_all add: doc_scenario_a)
  show ?thesis
    using doc(1) unfolding doc(2-4) py_round_samples by simp
qed

subsection \<open>The empty history\<close>

text \<open>
  Claim C2, amended. For the empty history the statistics have no visits, no date range
  and 0 days covered, and the document has 0 visits in total, no start and no end of the
  date range, the empty string as the display of the date range, no busiest date,
  \<^verbatim>\<open>N/A\<close> for both gaps and the peak hour 0 with count 0 and display \<^verbatim>\<open>12:00 AM\<close>.
\<close>

theorem empty_history_document:
  "parse_activity_history tz [] =
     Inr \<lparr>stats_visits = [],
          stats_weights = [],
          stats_clean_cycles_completed = 0,
          stats_sensor_interruptions = 0,
          stats_date_range = (None, None),
          stats_days_covered = 0,
          stats_visits_by_hour = [],
          stats_visits_by_date = [],
          stats_longest_gap = None,
          stats_shortest_gap = None,
          stats_weight_trend = None,
          stats_weight_change = None,
          stats_personality_traits = []\<rparr>
   \<and> data_json tz now [] robot cat =
     Inr \<lparr>cat_name = cat,
          robot_name = robot,
          generated_at = now,
          date_range = \<lparr>dr_start = None, dr_end = None, dr_display = Some ''''\<rparr>,
          personality_traits = [],
          total_visits = 0,
          visits_per_day = 0,
          chart_data = [],
          timing = \<lparr>t_longest_gap = ''N/A'', t_shortest_gap = ''N/A''\<rparr>,
          weight = \<lparr>w_average = 0, w_min = 0, w_max = 0, w_trend = None, w_change = 0\<rparr>,
          peak_hour = \<lparr>ph_hour = 0, ph_count = 0, ph_display = ''12:00 AM''\<rparr>,
          busiest_date = None,
          robot_stats = \<lparr>rs_clean_cycles = 0, rs_interruptions = 0\<rparr>,
          output_block = \<lparr>out_oz = 0, out_lbs = 0\<rparr>\<rparr>"
  by (simp add: parse_activity_history_empty data_json_def build_data_json_def truediv_def
      busiest_date_of_def date_range_doc_of_def gap_text_def get_count_def py_round_zero
      str_nat_12)

text \<open>
  Claim C2 as stated has every field of the date range null. The display of the date
  range of the empty history is the empty string, which is not null.
\<close>

theorem date_range_display_counterexample:
  "\<not> isl (example_doc [])
   \<and> dr_start (date_range (projr (example_doc []))) = None
   \<and> dr_end (date_range (projr (example_doc []))) = None
   \<and> dr_display (date_range (projr (example_doc []))) = Some ''''
   \<and> dr_display (date_range (projr (example_doc []))) \<noteq> None"
  by (simp add: doc_empty)

subsection \<open>The trend of fewer than four weight samples\<close>

text \<open>
  Claim C1 says that with fewer than 4 weight samples the document has the trend
  \<^verbatim>\<open>stable\<close> and the change 0. The source does give the change 0, but its trend is
  \<^verbatim>\<open>None\<close>: the key \<^verbatim>\<open>weight_trend\<close> is always present in the statistics, so the
  default of \<^verbatim>\<open>stats.get("weight_trend", "stable")\<close> is never taken. What the source
  does, for every history with fewer than 4 weight samples:
\<close>

theorem trend_below_four_samples:
  assumes "parse_activity_history tz activities = Inr st"
    and "length (stats_weights st) < 4"
    and "build_data_json tz now st robot cat = Inr doc"
  shows "w_trend (weight doc) = None \<and> w_change (weight doc) = 0"
proof -
  from parse_activity_history_trend [OF assms(1)] assms(2)
  have "stats_weight_trend st = None" and "stats_weight_change st = None"
    by (simp_all add: weight_trend_of_def)
  with build_data_json_fields(4,5) [OF assms(3)] show ?thesis
    by (simp add: py_round_zero)
qed

theorem trend_below_four_samples_witness:
  "\<exists>st doc. parse_activity_history utc [] = Inr st
      \<and> length (stats_weights st) < 4
      \<and> build_data_json utc ''2023-11-15T09:00:00-08:00'' st ''Litter-Robot'' ''Kitty''
          = Inr doc
      \<and> w_trend (weight doc) = None \<and> w_trend (weight doc) \<noteq> Some ''stable''
      \<and> w_change (weight doc) = 0"
proof -
  let ?st = "projr (parse_activity_history utc [])"
  let ?doc = "projr (example_doc [])"
  have run: "parse_activity_history utc [] = Inr ?st"
    by (simp add: parse_activity_history_empty)
  have few: "length (stats_weights ?st) < 4"
    by (simp add: parse_activity_history_empty)
  have doc: "build_data_json utc ''2023-11-15T09:00:00-08:00'' ?st ''Litter-Robot'' ''Kitty''
      = Inr ?doc"
    using doc_empty by (simp add: example_doc_def data_json_def parse_activity_history_empty)
  from trend_below_four_samples [OF run few doc]
  have "w_trend (weight ?doc) = None \<and> w_trend (weight ?doc) \<noteq> Some ''stable''
      \<and> w_change (weight ?doc) = 0"
    by simp
  with run few doc show ?thesis
    by blast
qed

end
